theory Spec2Isabelle
  imports Main
begin

section \<open>Python values used by the decoders\<close>

text \<open>
  A Python \<open>str\<close> is a sequence of Unicode code points, a \<open>bytes\<close> object a sequence of
  8-bit values. The summaries count and slice code points (\<open>len(s_disp) > 200\<close>,
  \<open>s_disp[:200]\<close>) and append the ellipsis U+2026, so text is a list of code points and
  a byte string is a list of \<open>char\<close> (Isabelle's \<open>char\<close> is exactly one byte).
  Python integers are unbounded: \<open>int\<close>.
\<close>

type_synonym pystr = "nat list"
type_synonym bytes = "char list"

definition lit :: "string \<Rightarrow> pystr" where
  "lit s = map of_char s"

text \<open>
  An exception that derives from Python's \<open>Exception\<close>, with the text \<open>str(e)\<close> gives
  for it. A call that may raise returns \<open>exn + 'a\<close>, \<open>Inl\<close> being the raise.
\<close>

datatype exn = Exception (message: pystr)

definition andThen :: "exn + 'a \<Rightarrow> ('a \<Rightarrow> exn + 'b) \<Rightarrow> exn + 'b" where
  "andThen m f = (case m of Inl e \<Rightarrow> Inl e | Inr v \<Rightarrow> f v)"

text \<open>\<open>str(n)\<close> for an integer, as the f-strings format \<open>{length}\<close>, \<open>{cap}\<close>, \<open>{size}\<close>.\<close>

fun digits :: "nat \<Rightarrow> pystr" where
  "digits n = (if n < 10 then [48 + n] else digits (n div 10) @ [48 + n mod 10])"

definition str_int :: "int \<Rightarrow> pystr" where
  "str_int n = (if n < 0 then 45 # digits (nat (- n)) else digits (nat n))"

text \<open>\<open>sep.join(parts)\<close>.\<close>

fun join :: "pystr \<Rightarrow> pystr list \<Rightarrow> pystr" where
  "join sep [] = []"
| "join sep [p] = p"
| "join sep (p # q # ps) = p @ sep @ join sep (q # ps)"

text \<open>\<open>s.replace(c, r)\<close> for a one-character pattern \<open>c\<close>.\<close>

definition replace :: "nat \<Rightarrow> pystr \<Rightarrow> pystr \<Rightarrow> pystr" where
  "replace c r s = concat (map (\<lambda>x. if x = c then r else [x]) s)"

text \<open>\<open>b.find(b"\x00")\<close>: the index of the first occurrence, or -1.\<close>

fun find_byte :: "char \<Rightarrow> bytes \<Rightarrow> int" where
  "find_byte c [] = - 1"
| "find_byte c (x # xs) =
     (if x = c then 0 else (let r = find_byte c xs in if r = - 1 then - 1 else r + 1))"

text \<open>
  \<open>str.strip()\<close> removes leading and trailing white space; \<open>isspace\<close> lists the code
  points Python's \<open>str.isspace\<close> accepts.
\<close>

definition isspace :: "nat \<Rightarrow> bool" where
  "isspace c \<longleftrightarrow> (9 \<le> c \<and> c \<le> 13) \<or> (28 \<le> c \<and> c \<le> 32) \<or> c = 133 \<or> c = 160
     \<or> c = 5760 \<or> (8192 \<le> c \<and> c \<le> 8202) \<or> c = 8232 \<or> c = 8233 \<or> c = 8239
     \<or> c = 8287 \<or> c = 12288"

definition strip :: "pystr \<Rightarrow> pystr" where
  "strip s = rev (dropWhile isspace (rev (dropWhile isspace s)))"

definition startswith :: "pystr \<Rightarrow> pystr \<Rightarrow> bool" where
  "startswith s p \<longleftrightarrow> take (length p) s = p"

text \<open>
  The parts of the Python runtime the decoders call and this repository does not define:
  the recursion limit (a call deeper than it raises \<open>RecursionError\<close>), the codec behind
  \<open>b.decode('utf-8', errors='replace')\<close> and the text-to-integer conversion \<open>int(s)\<close>,
  \<open>int(s, 16)\<close>. They are parameters of the model, so every theorem holds whatever
  they compute.
\<close>

record runtime =
  recursion_limit :: nat
  decode_utf8 :: "bytes \<Rightarrow> exn + pystr"
  int_of_str :: "pystr \<Rightarrow> nat \<Rightarrow> exn + int"

definition RecursionError :: exn where
  "RecursionError = Exception (lit ''maximum recursion depth exceeded'')"

definition TypeError :: exn where
  "TypeError = Exception (lit ''unsupported operand type(s): NoneType'')"

definition decode_latin1 :: "bytes \<Rightarrow> pystr" where
  "decode_latin1 b = map of_char b"

section \<open>The debugger host\<close>

text \<open>
  The LLDB objects are handles owned by the host. A handle is modelled by what each of
  the methods the decoders call on it answers: a value, or a raised exception (the
  source guards several of these calls with \<open>try\<close>, and notes that some builds lack
  \<open>SBValue.IsBaseClass\<close>). \<open>truth\<close> is the handle's truth value in \<open>if m and ...\<close>.
  The host is a snapshot: a method answers the same on every call, except
  \<open>Dereference\<close>, which the value coercer calls a second time expecting that the answer
  may differ; its answer is indexed by the number of earlier calls.
\<close>

datatype sbtype = SBType
  (type_truth: bool)
  (type_IsValid: "exn + bool")
  (GetByteSize: "exn + int")
  (GetName: "exn + pystr option")
  (GetTemplateArgumentType: "int \<Rightarrow> exn + sbtype")
  (GetTemplateArgumentAsUnsigned: "int \<Rightarrow> exn + int")

text \<open>What \<open>process.ReadMemory\<close> hands back: \<open>None\<close>, a \<open>bytes\<close> object, or another
  object, for which \<open>bytes(data)\<close> yields bytes or raises.\<close>

datatype data = PyNone | PyBytes bytes | PyOther "exn + bytes"

text \<open>\<open>ReadMemory addr len\<close> answers the pair of \<open>error.Fail()\<close> and the data.\<close>

datatype sbprocess = SBProcess (ReadMemory: "int \<Rightarrow> int \<Rightarrow> exn + bool \<times> data")

datatype sbtarget = SBTarget (GetProcess: "exn + sbprocess")

datatype sbvalue = SBValue
  (truth: bool)
  (IsValid: "exn + bool")
  (GetChildMemberWithName: "pystr \<Rightarrow> exn + sbvalue")
  (GetNumChildren: "exn + int")
  (GetChildAtIndex: "int \<Rightarrow> exn + sbvalue")
  (IsBaseClass: "exn + bool")
  (GetValueAsUnsigned: "int \<Rightarrow> exn + int")
  (GetValue: "exn + pystr option")
  (GetSummary: "exn + pystr option")
  (Dereference: "nat \<Rightarrow> exn + sbvalue")
  (GetType: "exn + sbtype")
  (GetLoadAddress: "exn + int")
  (AddressOf: "exn + sbvalue")
  (CreateValueFromAddress: "pystr \<Rightarrow> int \<Rightarrow> sbtype \<Rightarrow> exn + sbvalue")
  (GetTarget: "exn + sbtarget")


text \<open>\<open>m and m.IsValid()\<close> for a handle, and for the result of a lookup (\<open>None\<close> or a
  handle).\<close>

definition truthy_and_valid :: "sbvalue \<Rightarrow> exn + bool" where
  "truthy_and_valid m = (if truth m then IsValid m else Inr False)"

definition found_and_valid :: "sbvalue option \<Rightarrow> exn + bool" where
  "found_and_valid m = (case m of None \<Rightarrow> Inr False | Some v \<Rightarrow> truthy_and_valid v)"

section \<open>pretty\_static\_vector.py: the shared helpers\<close>

text \<open>\<open>_find_member_recursive\<close> of pretty\_static\_vector.py: a direct lookup only.\<close>

definition find_member_direct :: "sbvalue \<Rightarrow> pystr \<Rightarrow> exn + sbvalue option" where
  "find_member_direct valobj name =
     andThen (GetChildMemberWithName valobj name) (\<lambda>m.
     andThen (truthy_and_valid m) (\<lambda>ok.
       if ok then Inr (Some m) else Inr None))"

text \<open>
  \<open>_read_unsigned_value\<close>. Each \<open>try\<close> block is a step that answers \<open>Inr (Some r)\<close>
  when it reaches a \<open>return r\<close>, \<open>Inr None\<close> when it runs to its end and \<open>Inl e\<close> when
  it raises; \<open>except Exception: pass\<close> then goes on to the next block.
\<close>

definition dereference_step :: "sbvalue \<Rightarrow> nat \<Rightarrow> int \<Rightarrow> exn + int option" where
  "dereference_step sbval call dflt =
     andThen (Dereference sbval call) (\<lambda>d.
     andThen (truthy_and_valid d) (\<lambda>ok.
       if ok then andThen (GetValueAsUnsigned d dflt) (\<lambda>r. Inr (Some r))
       else Inr None))"

definition parse_step :: "runtime \<Rightarrow> sbvalue \<Rightarrow> int \<Rightarrow> exn + int option" where
  "parse_step rt sbval dflt =
     andThen (GetValue sbval) (\<lambda>s0.
       case s0 of
         None \<Rightarrow> Inr None
       | Some s1 \<Rightarrow>
           (let s = strip s1 in
            if length s > 0 then
              if startswith s (lit ''0x'') \<or> startswith s (lit ''-0x'') then
                (case dereference_step sbval 1 dflt of
                   Inr (Some r) \<Rightarrow> Inr (Some r)
                 | _ \<Rightarrow> andThen (int_of_str rt s 16) (\<lambda>r. Inr (Some r)))
              else andThen (int_of_str rt s 10) (\<lambda>r. Inr (Some r))
            else Inr None))"

definition read_unsigned_value :: "runtime \<Rightarrow> sbvalue option \<Rightarrow> int \<Rightarrow> int" where
  "read_unsigned_value rt sbval0 dflt =
     (case sbval0 of
        None \<Rightarrow> dflt
      | Some sbval \<Rightarrow>
          (case truthy_and_valid sbval of
             Inl e \<Rightarrow> dflt
           | Inr False \<Rightarrow> dflt
           | Inr True \<Rightarrow>
               (case dereference_step sbval 0 dflt of
                  Inr (Some r) \<Rightarrow> r
                | _ \<Rightarrow>
                    (case parse_step rt sbval dflt of
                       Inr (Some r) \<Rightarrow> r
                     | _ \<Rightarrow>
                         (case GetValueAsUnsigned sbval dflt of
                            Inr r \<Rightarrow> r
                          | Inl e \<Rightarrow> dflt)))))"

text \<open>\<open>_get_template_elem_type\<close>: \<open>GetType\<close> is outside the \<open>try\<close>.\<close>

definition get_template_elem_type :: "sbvalue \<Rightarrow> exn + sbtype option" where
  "get_template_elem_type valobj =
     andThen (GetType valobj) (\<lambda>ty.
       case GetTemplateArgumentType ty 0 of
         Inr t \<Rightarrow> Inr (Some t)
       | Inl e \<Rightarrow> Inr None)"

text \<open>\<open>elems and elems.IsValid() and elems.GetNumChildren() > 0\<close>.\<close>

definition has_first_element :: "sbvalue \<Rightarrow> exn + bool" where
  "has_first_element elems =
     andThen (truthy_and_valid elems) (\<lambda>ok.
       if ok then andThen (GetNumChildren elems) (\<lambda>n. Inr (n > 0)) else Inr False)"

definition get_arr_first_byte_addr :: "sbvalue \<Rightarrow> exn + int" where
  "get_arr_first_byte_addr arr_val =
     andThen (GetChildMemberWithName arr_val (lit ''_M_elems'')) (\<lambda>m_elems.
     andThen (has_first_element m_elems) (\<lambda>b1.
       if b1 then andThen (GetChildAtIndex m_elems 0) GetLoadAddress
       else
         andThen (GetChildMemberWithName arr_val (lit ''__elems_'')) (\<lambda>elems.
         andThen (has_first_element elems) (\<lambda>b2.
           if b2 then andThen (GetChildAtIndex elems 0) GetLoadAddress
           else andThen (AddressOf arr_val) GetLoadAddress))))"

definition get_arr_num_bytes :: "sbvalue \<Rightarrow> exn + int" where
  "get_arr_num_bytes arr_val =
     andThen (GetChildMemberWithName arr_val (lit ''_M_elems'')) (\<lambda>m_elems.
     andThen (truthy_and_valid m_elems) (\<lambda>b1.
       if b1 then GetNumChildren m_elems
       else
         andThen (GetChildMemberWithName arr_val (lit ''__elems_'')) (\<lambda>elems.
         andThen (truthy_and_valid elems) (\<lambda>b2.
           if b2 then GetNumChildren elems
           else
             (case andThen (GetType arr_val) (\<lambda>t. GetTemplateArgumentAsUnsigned t 1) of
                Inr n \<Rightarrow> Inr n
              | Inl e \<Rightarrow> Inr 0)))))"

text \<open>\<open>ty.GetByteSize() if ty else 0\<close>.\<close>

definition byte_size_or_0 :: "sbtype option \<Rightarrow> exn + int" where
  "byte_size_or_0 ty =
     (case ty of
        None \<Rightarrow> Inr 0
      | Some t \<Rightarrow> if type_truth t then GetByteSize t else Inr 0)"

definition type_truthy :: "sbtype option \<Rightarrow> bool" where
  "type_truthy ty = (case ty of None \<Rightarrow> False | Some t \<Rightarrow> type_truth t)"

text \<open>\<open>szm.GetValueAsUnsigned(0) if (szm and szm.IsValid()) else 0\<close>.\<close>

definition unsigned_or_0 :: "sbvalue option \<Rightarrow> exn + int" where
  "unsigned_or_0 m =
     andThen (found_and_valid m) (\<lambda>ok.
       case m of
         Some v \<Rightarrow> if ok then GetValueAsUnsigned v 0 else Inr 0
       | None \<Rightarrow> Inr 0)"

text \<open>
  What \<open>get_child_at_index\<close> returns: the default-constructed \<open>lldb.SBValue()\<close>, which
  is the absent child, or the handle the host made for \<open>CreateValueFromAddress\<close>.
\<close>

datatype child = SBValue_default | Created sbvalue

definition index_label :: "int \<Rightarrow> pystr" where
  "index_label index = lit ''['' @ str_int index @ lit '']''"

section \<open>StaticVectorSynthProvider\<close>

record vector_provider =
  vp_valobj :: sbvalue
  vp_elem_type :: "sbtype option"
  vp_elem_size :: int
  vp_data_addr :: "int option"
  vp_size :: "int option"

definition vector_init :: "sbvalue \<Rightarrow> exn + vector_provider" where
  "vector_init valobj =
     andThen (get_template_elem_type valobj) (\<lambda>ty.
     andThen (byte_size_or_0 ty) (\<lambda>sz.
       Inr \<lparr>vp_valobj = valobj, vp_elem_type = ty, vp_elem_size = sz,
            vp_data_addr = None, vp_size = None\<rparr>))"

definition vector_update :: "vector_provider \<Rightarrow> exn + vector_provider" where
  "vector_update self =
     andThen (get_template_elem_type (vp_valobj self)) (\<lambda>ty.
     andThen (byte_size_or_0 ty) (\<lambda>sz.
       Inr (self\<lparr>vp_elem_type := ty, vp_elem_size := sz,
                 vp_data_addr := None, vp_size := None\<rparr>)))"

definition vector_compute_layout :: "vector_provider \<Rightarrow> exn + vector_provider" where
  "vector_compute_layout self =
     (if vp_data_addr self \<noteq> None \<and> vp_size self \<noteq> None then Inr self
      else
        andThen (find_member_direct (vp_valobj self) (lit ''elementsCount'')) (\<lambda>szm.
        andThen (unsigned_or_0 szm) (\<lambda>sz.
        andThen (find_member_direct (vp_valobj self) (lit ''arr'')) (\<lambda>arr.
        andThen (found_and_valid arr) (\<lambda>ok.
        andThen (case arr of
                   Some a \<Rightarrow> if ok then get_arr_first_byte_addr a else Inr 0
                 | None \<Rightarrow> Inr 0) (\<lambda>addr.
          Inr (self\<lparr>vp_size := Some sz, vp_data_addr := Some addr\<rparr>)))))))"

text \<open>The operations return their result and the provider with its cache filled. A
  cached \<open>None\<close> in a comparison would be Python's \<open>TypeError\<close>.\<close>

definition vector_num_children :: "vector_provider \<Rightarrow> exn + int \<times> vector_provider" where
  "vector_num_children self0 =
     andThen (vector_compute_layout self0) (\<lambda>self.
       case vp_size self of
         None \<Rightarrow> Inl TypeError
       | Some sz \<Rightarrow> Inr (sz, self))"

definition vector_get_child_at_index ::
    "vector_provider \<Rightarrow> int \<Rightarrow> exn + child \<times> vector_provider" where
  "vector_get_child_at_index self0 index =
     andThen (vector_compute_layout self0) (\<lambda>self.
       case (vp_size self, vp_data_addr self) of
         (Some sz, Some data_addr) \<Rightarrow>
           if index < 0 \<or> index \<ge> sz \<or> \<not> type_truthy (vp_elem_type self) \<or> data_addr = 0
           then Inr (SBValue_default, self)
           else
             (case vp_elem_type self of
                Some ty \<Rightarrow>
                  andThen (CreateValueFromAddress (vp_valobj self) (index_label index)
                             (data_addr + index * vp_elem_size self) ty)
                    (\<lambda>v. Inr (Created v, self))
              | None \<Rightarrow> Inr (SBValue_default, self))
       | _ \<Rightarrow> Inl TypeError)"

definition vector_has_children :: "vector_provider \<Rightarrow> exn + bool \<times> vector_provider" where
  "vector_has_children self0 =
     andThen (vector_compute_layout self0) (\<lambda>self.
       case vp_size self of
         None \<Rightarrow> Inl TypeError
       | Some sz \<Rightarrow> Inr (sz > 0, self))"

section \<open>StaticVectorAdapterSynthProvider\<close>

record adapter_provider =
  ap_valobj :: sbvalue
  ap_elem_type :: "sbtype option"
  ap_elem_size :: int
  ap_base_addr :: "int option"
  ap_size :: "int option"

definition adapter_init :: "sbvalue \<Rightarrow> exn + adapter_provider" where
  "adapter_init valobj =
     andThen (get_template_elem_type valobj) (\<lambda>ty.
     andThen (byte_size_or_0 ty) (\<lambda>sz.
       Inr \<lparr>ap_valobj = valobj, ap_elem_type = ty, ap_elem_size = sz,
            ap_base_addr = None, ap_size = None\<rparr>))"

definition adapter_update :: "adapter_provider \<Rightarrow> exn + adapter_provider" where
  "adapter_update self =
     andThen (get_template_elem_type (ap_valobj self)) (\<lambda>ty.
     andThen (byte_size_or_0 ty) (\<lambda>sz.
       Inr (self\<lparr>ap_elem_type := ty, ap_elem_size := sz,
                 ap_base_addr := None, ap_size := None\<rparr>)))"

definition adapter_compute_layout ::
    "runtime \<Rightarrow> adapter_provider \<Rightarrow> exn + adapter_provider" where
  "adapter_compute_layout rt self =
     (if ap_base_addr self \<noteq> None \<and> ap_size self \<noteq> None then Inr self
      else
        andThen (find_member_direct (ap_valobj self) (lit ''elements_count_'')) (\<lambda>szm.
        let sz = read_unsigned_value rt szm 0 in
        andThen (find_member_direct (ap_valobj self) (lit ''elements_'')) (\<lambda>ptr.
        andThen (unsigned_or_0 ptr) (\<lambda>base.
          Inr (self\<lparr>ap_size := Some sz, ap_base_addr := Some base\<rparr>)))))"

definition adapter_num_children ::
    "runtime \<Rightarrow> adapter_provider \<Rightarrow> exn + int \<times> adapter_provider" where
  "adapter_num_children rt self0 =
     andThen (adapter_compute_layout rt self0) (\<lambda>self.
       case ap_size self of
         None \<Rightarrow> Inl TypeError
       | Some sz \<Rightarrow> Inr (sz, self))"

definition adapter_get_child_at_index ::
    "runtime \<Rightarrow> adapter_provider \<Rightarrow> int \<Rightarrow> exn + child \<times> adapter_provider" where
  "adapter_get_child_at_index rt self0 index =
     andThen (adapter_compute_layout rt self0) (\<lambda>self.
       case (ap_size self, ap_base_addr self) of
         (Some sz, Some base_addr) \<Rightarrow>
           if index < 0 \<or> index \<ge> sz \<or> \<not> type_truthy (ap_elem_type self) \<or> base_addr = 0
              \<or> ap_elem_size self = 0
           then Inr (SBValue_default, self)
           else
             (case ap_elem_type self of
                Some ty \<Rightarrow>
                  andThen (CreateValueFromAddress (ap_valobj self) (index_label index)
                             (base_addr + index * ap_elem_size self) ty)
                    (\<lambda>v. Inr (Created v, self))
              | None \<Rightarrow> Inr (SBValue_default, self))
       | _ \<Rightarrow> Inl TypeError)"

definition adapter_has_children ::
    "runtime \<Rightarrow> adapter_provider \<Rightarrow> exn + bool \<times> adapter_provider" where
  "adapter_has_children rt self0 =
     andThen (adapter_compute_layout rt self0) (\<lambda>self.
       case ap_size self of
         None \<Rightarrow> Inl TypeError
       | Some sz \<Rightarrow> Inr (sz > 0, self))"


section \<open>The summaries of pretty\_static\_vector.py\<close>

text \<open>\<open>try: body except Exception as e: handler\<close>.\<close>

definition try_except :: "exn + 'a \<Rightarrow> (exn \<Rightarrow> exn + 'a) \<Rightarrow> exn + 'a" where
  "try_except body handler = (case body of Inl e \<Rightarrow> handler e | Inr v \<Rightarrow> Inr v)"

text \<open>\<open>elem_type and elem_type.IsValid()\<close>.\<close>

definition type_truthy_and_valid :: "sbtype option \<Rightarrow> exn + bool" where
  "type_truthy_and_valid ty =
     (case ty of
        None \<Rightarrow> Inr False
      | Some t \<Rightarrow> if type_truth t then type_IsValid t else Inr False)"

text \<open>\<open>elem_type.GetName() or "?"\<close>.\<close>

definition name_or_question :: "sbtype \<Rightarrow> exn + pystr" where
  "name_or_question ty =
     andThen (GetName ty) (\<lambda>n.
       case n of
         None \<Rightarrow> Inr (lit ''?'')
       | Some s \<Rightarrow> Inr (if s = [] then lit ''?'' else s))"

text \<open>One round of the preview loop: the text shown for the element at \<open>addr\<close>.\<close>

definition element_text :: "sbvalue \<Rightarrow> sbtype \<Rightarrow> int \<Rightarrow> exn + pystr" where
  "element_text valobj elem_type addr =
     andThen (CreateValueFromAddress valobj (lit ''tmp'') addr elem_type) (\<lambda>sbval.
     andThen (GetValue sbval) (\<lambda>disp.
       case disp of
         Some d \<Rightarrow> Inr d
       | None \<Rightarrow>
           andThen (GetSummary sbval) (\<lambda>disp2.
             case disp2 of
               Some d \<Rightarrow> Inr d
             | None \<Rightarrow> name_or_question elem_type)))"

text \<open>\<open>for i in range(count): ... parts.append(disp)\<close>, over the indices still to do.\<close>

fun preview_parts :: "sbvalue \<Rightarrow> sbtype \<Rightarrow> int \<Rightarrow> int \<Rightarrow> int list \<Rightarrow> exn + pystr list" where
  "preview_parts valobj elem_type base elem_sz [] = Inr []"
| "preview_parts valobj elem_type base elem_sz (i # is) =
     andThen (element_text valobj elem_type (base + i * elem_sz)) (\<lambda>disp.
     andThen (preview_parts valobj elem_type base elem_sz is) (\<lambda>parts.
       Inr (disp # parts)))"

definition range :: "int \<Rightarrow> int list" where
  "range n = map int [0..<nat n]"

text \<open>The bracketed preview, \<open>U+2026\<close> marking that elements were left out.\<close>

definition render_preview :: "int \<Rightarrow> int \<Rightarrow> pystr list \<Rightarrow> pystr" where
  "render_preview sz count parts =
     (if sz > count then lit '' ['' @ join (lit '', '') parts @ lit '', '' @ [8230] @ lit '']''
      else lit '' ['' @ join (lit '', '') parts @ lit '']'')"

definition StaticVectorSummary_body :: "sbvalue \<Rightarrow> exn + pystr" where
  "StaticVectorSummary_body valobj =
     andThen (find_member_direct valobj (lit ''elementsCount'')) (\<lambda>szm.
     andThen (unsigned_or_0 szm) (\<lambda>sz.
     andThen (find_member_direct valobj (lit ''arr'')) (\<lambda>arr0.
     andThen (found_and_valid arr0) (\<lambda>ok.
       case arr0 of
         None \<Rightarrow> Inr (lit ''static_vector(size='' @ str_int sz @ lit '')'')
       | Some arr \<Rightarrow>
           if \<not> ok then Inr (lit ''static_vector(size='' @ str_int sz @ lit '')'')
           else
             andThen (get_template_elem_type valobj) (\<lambda>elem_type.
             andThen (byte_size_or_0 elem_type) (\<lambda>elem_sz.
             andThen (get_arr_num_bytes arr) (\<lambda>total_bytes.
             let cap = (if elem_sz \<noteq> 0 then total_bytes div elem_sz else 0) in
             andThen (if sz > 0 then type_truthy_and_valid elem_type else Inr False) (\<lambda>shown.
             andThen
               (case elem_type of
                  Some ty \<Rightarrow>
                    if shown then
                      andThen (get_arr_first_byte_addr arr) (\<lambda>base.
                      let count = min 4 sz in
                      andThen (preview_parts valobj ty base elem_sz (range count)) (\<lambda>parts.
                        Inr (render_preview sz count parts)))
                    else Inr []
                | None \<Rightarrow> Inr [])
               (\<lambda>preview.
                 Inr (lit ''static_vector(size='' @ str_int sz @ lit '', cap=''
                      @ str_int cap @ lit '')'' @ preview))))))))))"

definition StaticVectorSummary :: "sbvalue \<Rightarrow> exn + pystr" where
  "StaticVectorSummary valobj =
     try_except (StaticVectorSummary_body valobj)
       (\<lambda>e. Inr (lit ''<static_vector: error '' @ message e @ lit ''>''))"

definition StaticVectorAdapterSummary_body :: "runtime \<Rightarrow> sbvalue \<Rightarrow> exn + pystr" where
  "StaticVectorAdapterSummary_body rt valobj =
     andThen (find_member_direct valobj (lit ''elements_count_'')) (\<lambda>szm.
     let sz = read_unsigned_value rt szm 0 in
     andThen (find_member_direct valobj (lit ''max_elements_count_'')) (\<lambda>capm.
     let cap = read_unsigned_value rt capm 0 in
     andThen (get_template_elem_type valobj) (\<lambda>elem_type.
     andThen (byte_size_or_0 elem_type) (\<lambda>elem_sz.
     andThen (find_member_direct valobj (lit ''elements_'')) (\<lambda>ptr.
     andThen (unsigned_or_0 ptr) (\<lambda>base.
     andThen (if sz > 0 then type_truthy_and_valid elem_type else Inr False) (\<lambda>ok.
     andThen
       (case elem_type of
          Some ty \<Rightarrow>
            if ok \<and> base \<noteq> 0 \<and> elem_sz > 0 then
              (let count = min 4 sz in
               andThen (preview_parts valobj ty base elem_sz (range count)) (\<lambda>parts.
                 Inr (render_preview sz count parts)))
            else Inr []
        | None \<Rightarrow> Inr [])
       (\<lambda>preview.
         Inr (lit ''static_vector_adapter(size='' @ str_int sz @ lit '', cap=''
              @ str_int cap @ lit '')'' @ preview)))))))))"

definition StaticVectorAdapterSummary :: "runtime \<Rightarrow> sbvalue \<Rightarrow> exn + pystr" where
  "StaticVectorAdapterSummary rt valobj =
     try_except (StaticVectorAdapterSummary_body rt valobj)
       (\<lambda>e. Inr (lit ''<static_vector_adapter: error '' @ message e @ lit ''>''))"

section \<open>pretty\_static\_string.py\<close>

text \<open>
  \<open>_find_member_recursive\<close> of pretty\_static\_string.py searches the base classes. The
  recursion is bounded by the recursion limit, as Python bounds it: a call that would
  go deeper raises \<open>RecursionError\<close>, an \<open>Exception\<close>. \<open>search_bases\<close> is the \<open>for\<close>
  loop, from index \<open>i\<close> with \<open>k\<close> rounds left.
\<close>

fun find_member_recursive :: "nat \<Rightarrow> sbvalue \<Rightarrow> pystr \<Rightarrow> exn + sbvalue option"
  and search_bases :: "nat \<Rightarrow> sbvalue \<Rightarrow> pystr \<Rightarrow> int \<Rightarrow> nat \<Rightarrow> exn + sbvalue option" where
  "find_member_recursive 0 valobj name = Inl RecursionError"
| "find_member_recursive (Suc depth) valobj name =
     andThen (GetChildMemberWithName valobj name) (\<lambda>m.
     andThen (truthy_and_valid m) (\<lambda>ok.
       if ok then Inr (Some m)
       else andThen (GetNumChildren valobj) (\<lambda>n. search_bases depth valobj name 0 (nat n))))"
| "search_bases depth valobj name i 0 = Inr None"
| "search_bases depth valobj name i (Suc k) =
     andThen (GetChildAtIndex valobj i) (\<lambda>child.
     andThen (truthy_and_valid child) (\<lambda>ok.
     andThen (if ok then IsBaseClass child else Inr False) (\<lambda>is_base.
       if is_base then
         andThen (find_member_recursive depth child name) (\<lambda>m.
         andThen (found_and_valid m) (\<lambda>ok2.
           if ok2 then Inr m else search_bases depth valobj name (i + 1) k))
       else search_bases depth valobj name (i + 1) k)))"

definition option_truth :: "sbvalue option \<Rightarrow> bool" where
  "option_truth m = (case m of None \<Rightarrow> False | Some v \<Rightarrow> truth v)"

text \<open>\<open>bytes(data)\<close> unless \<open>data\<close> is a \<open>bytes\<close> object already.\<close>

definition to_bytes :: "data \<Rightarrow> exn + bytes" where
  "to_bytes d =
     (case d of
        PyBytes b \<Rightarrow> Inr b
      | PyOther r \<Rightarrow> r
      | PyNone \<Rightarrow> Inl TypeError)"

text \<open>The four \<open>replace\<close> calls: backslash, newline, carriage return, tab.\<close>

definition escape :: "pystr \<Rightarrow> pystr" where
  "escape s =
     replace 9 [92, 116] (replace 13 [92, 114] (replace 10 [92, 110] (replace 92 [92, 92] s)))"

definition truncate_display :: "pystr \<Rightarrow> pystr" where
  "truncate_display s_disp = (if length s_disp > 200 then take 200 s_disp @ [8230] else s_disp)"

text \<open>\<open>try: s = b.decode('utf-8', errors='replace') except Exception:
  s = b.decode('latin1', errors='replace')\<close>.\<close>

definition decode_text :: "runtime \<Rightarrow> bytes \<Rightarrow> pystr" where
  "decode_text rt b = (case decode_utf8 rt b of Inr s \<Rightarrow> s | Inl e \<Rightarrow> decode_latin1 b)"

text \<open>Lines 55 to 75: from the bytes read to the summary.\<close>

definition render_string :: "runtime \<Rightarrow> bytes \<Rightarrow> int \<Rightarrow> int \<Rightarrow> pystr" where
  "render_string rt b0 len cap =
     (let nul = find_byte (CHR 0x00) b0;
          b = (if nul \<noteq> - 1 then take (nat nul) b0 else b0);
          s = decode_text rt b;
          s_disp = truncate_display (escape s)
      in [34] @ s_disp @ [34] @ lit '' len='' @ str_int len @ lit '' cap='' @ str_int cap)"

text \<open>Lines 41 to 46: the length, bounded by the capacity and by \<open>1 << 31\<close>.\<close>

definition bounded_length :: "int \<Rightarrow> int \<Rightarrow> int \<Rightarrow> int" where
  "bounded_length head_addr tail_addr cap =
     (let length0 = tail_addr - head_addr;
          length1 = (if cap \<noteq> 0 then min length0 cap else length0)
      in max 0 (min length1 (2 ^ 31)))"

definition static_string_body :: "runtime \<Rightarrow> sbvalue \<Rightarrow> exn + pystr" where
  "static_string_body rt valobj =
     andThen (GetTarget valobj) (\<lambda>target.
     andThen (GetProcess target) (\<lambda>process.
     andThen (find_member_recursive (recursion_limit rt) valobj (lit ''head_'')) (\<lambda>head.
     andThen (find_member_recursive (recursion_limit rt) valobj (lit ''tail_'')) (\<lambda>tail.
     andThen (find_member_recursive (recursion_limit rt) valobj (lit ''max_length_'')) (\<lambda>maxl.
       case (head, tail, maxl) of
         (Some head', Some tail', Some maxl') \<Rightarrow>
           if \<not> (option_truth head \<and> option_truth tail \<and> option_truth maxl)
           then Inr (lit ''<static_string: layout not found>'')
           else
             andThen (GetValueAsUnsigned head' 0) (\<lambda>head_addr.
             andThen (GetValueAsUnsigned tail' 0) (\<lambda>tail_addr.
             andThen (GetValueAsUnsigned maxl' 0) (\<lambda>cap.
               if head_addr = 0 \<or> tail_addr = 0 \<or> tail_addr < head_addr
               then Inr ([34, 34] @ lit '' len=0 cap='' @ str_int cap)
               else
                 (let len = bounded_length head_addr tail_addr cap;
                      preview_len = min len 1024
                  in
                  andThen (ReadMemory process head_addr preview_len) (\<lambda>(fail, data).
                    if fail \<or> data = PyNone
                    then Inr (lit ''<static_string: unreadable memory> len='' @ str_int len
                              @ lit '' cap='' @ str_int cap)
                    else
                      andThen (to_bytes data) (\<lambda>b.
                        Inr (render_string rt b len cap)))))))
       | _ \<Rightarrow> Inr (lit ''<static_string: layout not found>''))))))"

definition static_string_summary :: "runtime \<Rightarrow> sbvalue \<Rightarrow> exn + pystr" where
  "static_string_summary rt valobj =
     try_except (static_string_body rt valobj)
       (\<lambda>e. Inr (lit ''<static_string: error '' @ message e @ lit ''>''))"


section \<open>The length bound in the words of the specification\<close>

text \<open>
  ``\<open>length = tail - head\<close>; clamp to \<open>[0, capacity]\<close> when capacity is declared and
  nonzero, then clamp again to \<open>[0, 2^31]\<close>''.
\<close>

definition clamp :: "int \<Rightarrow> int \<Rightarrow> int \<Rightarrow> int" where
  "clamp lo hi x = max lo (min hi x)"

definition spec_length :: "int \<Rightarrow> int \<Rightarrow> int \<Rightarrow> int" where
  "spec_length head_addr tail_addr cap =
     clamp 0 (2 ^ 31)
       (if cap \<noteq> 0 then clamp 0 cap (tail_addr - head_addr) else tail_addr - head_addr)"

section \<open>The value coercer in the words of the specification\<close>

text \<open>
  A step of the specification either yields a value or fails; a failed step hands over
  to the next one, and when all have failed the default is the result.
  Step 1 dereferences once and reads the unsigned value of a valid result.
\<close>

definition spec_dereference :: "sbvalue \<Rightarrow> nat \<Rightarrow> int \<Rightarrow> int option" where
  "spec_dereference field call dflt =
     (case Dereference field call of
        Inl e \<Rightarrow> None
      | Inr d \<Rightarrow>
          if truthy_and_valid d = Inr True
          then (case GetValueAsUnsigned d dflt of Inr r \<Rightarrow> Some r | Inl e \<Rightarrow> None)
          else None)"

definition address_shaped :: "pystr \<Rightarrow> bool" where
  "address_shaped s \<longleftrightarrow> startswith s (lit ''0x'') \<or> startswith s (lit ''-0x'')"

definition spec_parse_int :: "runtime \<Rightarrow> pystr \<Rightarrow> nat \<Rightarrow> int option" where
  "spec_parse_int rt s base = (case int_of_str rt s base of Inr r \<Rightarrow> Some r | Inl e \<Rightarrow> None)"

text \<open>Step 2 parses the text of the field, hexadecimal when it is address-shaped, after
  a second dereference has been tried.\<close>

definition spec_parse :: "runtime \<Rightarrow> sbvalue \<Rightarrow> int \<Rightarrow> int option" where
  "spec_parse rt field dflt =
     (case GetValue field of
        Inr (Some text) \<Rightarrow>
          if strip text = [] then None
          else if address_shaped (strip text) then
            (case spec_dereference field 1 dflt of
               Some r \<Rightarrow> Some r
             | None \<Rightarrow> spec_parse_int rt (strip text) 16)
          else spec_parse_int rt (strip text) 10
      | _ \<Rightarrow> None)"

text \<open>Step 3 is the raw unsigned accessor.\<close>

definition spec_raw :: "sbvalue \<Rightarrow> int \<Rightarrow> int option" where
  "spec_raw field dflt = (case GetValueAsUnsigned field dflt of Inr r \<Rightarrow> Some r | Inl e \<Rightarrow> None)"

fun first_success :: "int option list \<Rightarrow> int \<Rightarrow> int" where
  "first_success [] dflt = dflt"
| "first_success (Some r # steps) dflt = r"
| "first_success (None # steps) dflt = first_success steps dflt"

definition spec_coerce :: "runtime \<Rightarrow> sbvalue \<Rightarrow> int \<Rightarrow> int" where
  "spec_coerce rt field dflt =
     first_success [spec_dereference field 0 dflt, spec_parse rt field dflt, spec_raw field dflt]
       dflt"

section \<open>Example hosts\<close>

text \<open>
  Small host objects on which the theorems below are instantiated. \<open>ascii_runtime\<close>
  decodes ASCII bytes as Python's UTF-8 codec does and replaces every other byte by
  U+FFFD; its \<open>int\<close> reads an optional sign, in base 16 an optional \<open>0x\<close>, and ASCII
  digits.
\<close>

definition host_error :: exn where
  "host_error = Exception (lit ''host error'')"

definition ValueError :: exn where
  "ValueError = Exception (lit ''invalid literal for int()'')"

definition digit_of :: "nat \<Rightarrow> nat option" where
  "digit_of c =
     (if 48 \<le> c \<and> c \<le> 57 then Some (c - 48)
      else if 97 \<le> c \<and> c \<le> 102 then Some (c - 87)
      else if 65 \<le> c \<and> c \<le> 70 then Some (c - 55)
      else None)"

fun number_of :: "nat \<Rightarrow> pystr \<Rightarrow> nat \<Rightarrow> nat option" where
  "number_of base [] acc = Some acc"
| "number_of base (c # cs) acc =
     (case digit_of c of
        Some d \<Rightarrow> if d < base then number_of base cs (acc * base + d) else None
      | None \<Rightarrow> None)"

definition ascii_int :: "pystr \<Rightarrow> nat \<Rightarrow> exn + int" where
  "ascii_int s base =
     (let neg = (take 1 s = [45]);
          t = (if take 1 s = [45] \<or> take 1 s = [43] then drop 1 s else s);
          u = (if base = 16 \<and> (take 2 t = lit ''0x'' \<or> take 2 t = lit ''0X'') then drop 2 t else t)
      in if u = [] then Inl ValueError
         else (case number_of base u 0 of
                 Some n \<Rightarrow> Inr (if neg then - int n else int n)
               | None \<Rightarrow> Inl ValueError))"

definition ascii_decode :: "bytes \<Rightarrow> exn + pystr" where
  "ascii_decode b = Inr (map (\<lambda>c. if of_char c < (128::nat) then of_char c else 65533) b)"

definition ascii_runtime :: runtime where
  "ascii_runtime = \<lparr>recursion_limit = 1000, decode_utf8 = ascii_decode, int_of_str = ascii_int\<rparr>"

definition no_type :: sbtype where
  "no_type = SBType False (Inr False) (Inr 0) (Inr None) (\<lambda>i. Inl host_error) (\<lambda>i. Inl host_error)"

text \<open>A valid element type of the given byte size.\<close>

definition plain_type :: "int \<Rightarrow> sbtype" where
  "plain_type n =
     SBType True (Inr True) (Inr n) (Inr (Some (lit ''T''))) (\<lambda>i. Inl host_error)
       (\<lambda>i. Inl host_error)"

text \<open>A container type whose first template argument is \<open>t\<close>.\<close>

definition template_type :: "sbtype \<Rightarrow> sbtype" where
  "template_type t =
     SBType True (Inr True) (Inr 0) (Inr (Some (lit ''container'')))
       (\<lambda>i. if i = 0 then Inr t else Inl host_error) (\<lambda>i. Inl host_error)"

definition invalid_value :: sbvalue where
  "invalid_value =
     SBValue False (Inr False) (\<lambda>name. Inl host_error) (Inr 0) (\<lambda>i. Inl host_error) (Inr False)
       (\<lambda>d. Inr d) (Inr None) (Inr None) (\<lambda>call. Inl host_error) (Inr no_type) (Inr 0)
       (Inl host_error) (\<lambda>label addr t. Inl host_error) (Inl host_error)"

text \<open>A valid integral field holding \<open>n\<close>, stored at address \<open>a\<close>.\<close>

definition scalar_at :: "int \<Rightarrow> int \<Rightarrow> sbvalue" where
  "scalar_at a n =
     SBValue True (Inr True) (\<lambda>name. Inr invalid_value) (Inr 0) (\<lambda>i. Inr invalid_value)
       (Inr False) (\<lambda>d. Inr n) (Inr (Some (str_int n))) (Inr None) (\<lambda>call. Inr invalid_value)
       (Inr no_type) (Inr a) (Inr invalid_value) (\<lambda>label addr t. Inr invalid_value)
       (Inl host_error)"

definition scalar :: "int \<Rightarrow> sbvalue" where
  "scalar n = scalar_at 0 n"

text \<open>An inline array of \<open>n\<close> bytes that starts at address \<open>a\<close>.\<close>

definition byte_array :: "int \<Rightarrow> int \<Rightarrow> sbvalue" where
  "byte_array n a =
     SBValue True (Inr True) (\<lambda>name. Inr invalid_value) (Inr n)
       (\<lambda>i. if 0 \<le> i \<and> i < n then Inr (scalar_at (a + i) 0) else Inr invalid_value)
       (Inr False) (\<lambda>d. Inr d) (Inr None) (Inr None) (\<lambda>call. Inr invalid_value) (Inr no_type)
       (Inr a) (Inr invalid_value) (\<lambda>label addr t. Inr invalid_value) (Inl host_error)"

text \<open>A process whose memory holds \<open>bs\<close> from address \<open>base\<close> on.\<close>

definition memory_process :: "int \<Rightarrow> bytes \<Rightarrow> sbprocess" where
  "memory_process base bs =
     SBProcess (\<lambda>addr n. Inr (False, PyBytes (take (nat n) (drop (nat (addr - base)) bs))))"

text \<open>A valid aggregate at address \<open>a\<close> with the given named members; the host makes
  \<open>scalar_at addr addr\<close> for \<open>CreateValueFromAddress\<close> at \<open>addr\<close>.\<close>

definition aggregate :: "(pystr \<times> sbvalue) list \<Rightarrow> sbtype \<Rightarrow> sbprocess \<Rightarrow> int \<Rightarrow> sbvalue" where
  "aggregate members ty proc a =
     SBValue True (Inr True)
       (\<lambda>name. case map_of members name of Some v \<Rightarrow> Inr v | None \<Rightarrow> Inr invalid_value)
       (Inr (int (length members)))
       (\<lambda>i. if 0 \<le> i \<and> i < int (length members) then Inr (snd (members ! nat i))
            else Inr invalid_value)
       (Inr False) (\<lambda>d. Inr d) (Inr None) (Inr None) (\<lambda>call. Inr invalid_value) (Inr ty)
       (Inr a) (Inr (scalar_at a a)) (\<lambda>label addr t. Inr (scalar_at addr addr))
       (Inr (SBTarget (Inr proc)))"

definition no_memory :: sbprocess where
  "no_memory = SBProcess (\<lambda>addr n. Inr (True, PyNone))"

text \<open>A \<open>std::array\<close> of libstdc++ with \<open>n\<close> bytes from address \<open>a\<close>.\<close>

definition std_array :: "int \<Rightarrow> int \<Rightarrow> sbvalue" where
  "std_array n a = aggregate [(lit ''_M_elems'', byte_array n a)] no_type no_memory a"

text \<open>A \<open>static_vector\<close> of \<open>count\<close> elements of type \<open>t\<close> over an array of \<open>n\<close> bytes.\<close>

definition example_vector :: "int \<Rightarrow> sbtype \<Rightarrow> int \<Rightarrow> sbvalue" where
  "example_vector count t n =
     aggregate [(lit ''elementsCount'', scalar count), (lit ''arr'', std_array n 4096)]
       (template_type t) no_memory 4096"

text \<open>A \<open>static_vector\<close> without the member \<open>arr\<close>.\<close>

definition example_vector_no_arr :: "int \<Rightarrow> sbvalue" where
  "example_vector_no_arr count =
     aggregate [(lit ''elementsCount'', scalar count)] (template_type (plain_type 2)) no_memory 4096"

text \<open>A \<open>static_vector_adapter\<close> with the given count, maximum count and pointer.\<close>

definition example_adapter :: "int \<Rightarrow> int \<Rightarrow> int \<Rightarrow> sbtype \<Rightarrow> sbvalue" where
  "example_adapter count maxc ptr t =
     aggregate [(lit ''elements_count_'', scalar count), (lit ''max_elements_count_'', scalar maxc),
                (lit ''elements_'', scalar ptr)]
       (template_type t) no_memory 4096"

text \<open>A \<open>static_string\<close> with the given head, tail and capacity over the memory \<open>bs\<close>,
  which starts at the head address.\<close>

definition example_string :: "int \<Rightarrow> int \<Rightarrow> int \<Rightarrow> bytes \<Rightarrow> sbvalue" where
  "example_string h t c bs =
     aggregate [(lit ''head_'', scalar h), (lit ''tail_'', scalar t), (lit ''max_length_'', scalar c)]
       no_type (memory_process h bs) 4096"




text \<open>The handle \<open>v\<close> on a host that cannot materialize a value at an address.\<close>

definition failing_create :: "sbvalue \<Rightarrow> sbvalue" where
  "failing_create v =
     SBValue (truth v) (IsValid v) (GetChildMemberWithName v) (GetNumChildren v)
       (GetChildAtIndex v) (IsBaseClass v) (GetValueAsUnsigned v) (GetValue v) (GetSummary v)
       (Dereference v) (GetType v) (GetLoadAddress v) (AddressOf v)
       (\<lambda>label addr t. Inl host_error) (GetTarget v)"

text \<open>A vector whose count member is truthy while its \<open>IsValid\<close> raises.\<close>

definition raising_member :: sbvalue where
  "raising_member =
     SBValue True (Inl host_error) (\<lambda>name. Inl host_error) (Inr 0) (\<lambda>i. Inl host_error)
       (Inr False) (\<lambda>d. Inr d) (Inr None) (Inr None) (\<lambda>call. Inl host_error) (Inr no_type)
       (Inr 0) (Inl host_error) (\<lambda>label addr t. Inl host_error) (Inl host_error)"

definition raising_vector :: sbvalue where
  "raising_vector =
     aggregate [(lit ''elementsCount'', raising_member), (lit ''arr'', std_array 10 4096)]
       (template_type (plain_type 2)) no_memory 4096"

text \<open>An array field of libc++, and one with neither member.\<close>

definition libcxx_array :: sbvalue where
  "libcxx_array = aggregate [(lit ''__elems_'', byte_array 3 4096)] no_type no_memory 4000"

definition opaque_array :: sbvalue where
  "opaque_array = aggregate [] no_type no_memory 4000"


text \<open>The providers \<open>__init__\<close> builds for an element type \<open>t\<close> of byte size \<open>n\<close>.\<close>

definition fresh_vector_provider :: "sbvalue \<Rightarrow> sbtype \<Rightarrow> int \<Rightarrow> vector_provider" where
  "fresh_vector_provider valobj t n =
     \<lparr>vp_valobj = valobj, vp_elem_type = Some t, vp_elem_size = n,
      vp_data_addr = None, vp_size = None\<rparr>"

definition fresh_adapter_provider :: "sbvalue \<Rightarrow> sbtype \<Rightarrow> int \<Rightarrow> adapter_provider" where
  "fresh_adapter_provider valobj t n =
     \<lparr>ap_valobj = valobj, ap_elem_type = Some t, ap_elem_size = n,
      ap_base_addr = None, ap_size = None\<rparr>"

text \<open>A valid field that shows the text \<open>s\<close>, cannot be dereferenced and whose raw
  unsigned accessor answers \<open>raw\<close>; and a reference to a field holding \<open>n\<close>.\<close>

definition text_field :: "pystr \<Rightarrow> int \<Rightarrow> sbvalue" where
  "text_field s raw =
     SBValue True (Inr True) (\<lambda>name. Inr invalid_value) (Inr 0) (\<lambda>i. Inr invalid_value)
       (Inr False) (\<lambda>d. Inr raw) (Inr (Some s)) (Inr None) (\<lambda>call. Inl host_error)
       (Inr no_type) (Inr 0) (Inr invalid_value) (\<lambda>label addr t. Inr invalid_value)
       (Inl host_error)"

definition reference_to :: "int \<Rightarrow> sbvalue" where
  "reference_to n =
     SBValue True (Inr True) (\<lambda>name. Inr invalid_value) (Inr 0) (\<lambda>i. Inr invalid_value)
       (Inr False) (\<lambda>d. Inr 8192) (Inr (Some (lit ''0x2000''))) (Inr None)
       (\<lambda>call. Inr (scalar n)) (Inr no_type) (Inr 0) (Inr invalid_value)
       (\<lambda>label addr t. Inr invalid_value) (Inl host_error)"

section \<open>Basic facts\<close>

lemma andThen_Inl [simp]: "andThen (Inl e) f = Inl e"
  by (simp add: andThen_def)

lemma andThen_Inr [simp]: "andThen (Inr v) f = f v"
  by (simp add: andThen_def)

lemma try_except_Inr [simp]: "try_except (Inr v) h = Inr v"
  by (simp add: try_except_def)

lemma try_except_Inl [simp]: "try_except (Inl e) h = h e"
  by (simp add: try_except_def)

lemmas host_examples =
  lit_def aggregate_def scalar_def scalar_at_def byte_array_def std_array_def invalid_value_def
  plain_type_def template_type_def no_type_def no_memory_def memory_process_def
  truthy_and_valid_def found_and_valid_def find_member_direct_def unsigned_or_0_def

section \<open>The summary of a vector without its backing array\<close>

text \<open>
  Claim C10. When the member \<open>arr\<close> is absent or invalid (the host answers a handle
  that is falsy or not valid), \<open>StaticVectorSummary\<close> returns
  \<open>static_vector(size=S)\<close>, \<open>S\<close> being the value of the count member: no capacity and
  no preview.
\<close>

theorem summary_without_arr:
  assumes "find_member_direct valobj (lit ''elementsCount'') = Inr szm"
    and "unsigned_or_0 szm = Inr S"
    and "GetChildMemberWithName valobj (lit ''arr'') = Inr a"
    and "truthy_and_valid a = Inr False"
  shows "StaticVectorSummary valobj = Inr (lit ''static_vector(size='' @ str_int S @ lit '')'')"
  using assms
  by (simp add: StaticVectorSummary_def StaticVectorSummary_body_def find_member_direct_def
      found_and_valid_def)

theorem summary_without_arr_witness:
  "find_member_direct (example_vector_no_arr 3) (lit ''elementsCount'') = Inr (Some (scalar 3))
   \<and> unsigned_or_0 (Some (scalar 3)) = Inr 3
   \<and> GetChildMemberWithName (example_vector_no_arr 3) (lit ''arr'') = Inr invalid_value
   \<and> truthy_and_valid invalid_value = Inr False
   \<and> StaticVectorSummary (example_vector_no_arr 3) = Inr (lit ''static_vector(size=3)'')"
proof -
  have 1: "find_member_direct (example_vector_no_arr 3) (lit ''elementsCount'')
           = Inr (Some (scalar 3))"
    by (simp add: example_vector_no_arr_def host_examples)
  have 2: "unsigned_or_0 (Some (scalar 3)) = Inr 3"
    by (simp add: host_examples)
  have 3: "GetChildMemberWithName (example_vector_no_arr 3) (lit ''arr'') = Inr invalid_value"
    by (simp add: example_vector_no_arr_def host_examples)
  have 4: "truthy_and_valid invalid_value = Inr False"
    by (simp add: host_examples)
  have 5: "str_int 3 = lit ''3''"
    by (simp add: str_int_def lit_def)
  have "StaticVectorSummary (example_vector_no_arr 3) = Inr (lit ''static_vector(size=3)'')"
    using summary_without_arr [OF 1 2 3 4] by (simp add: 5 lit_def)
  with 1 2 3 4 show ?thesis by blast
qed

section \<open>The layout cache of the providers\<close>

lemma vector_layout_cached:
  "vector_compute_layout self = Inr self' \<Longrightarrow>
     vp_size self' \<noteq> None \<and> vp_data_addr self' \<noteq> None \<and> vp_valobj self' = vp_valobj self
     \<and> vp_elem_type self' = vp_elem_type self \<and> vp_elem_size self' = vp_elem_size self
     \<and> vector_compute_layout self' = Inr self'"
  by (auto simp: vector_compute_layout_def andThen_def split: if_splits sum.splits)

lemma adapter_layout_cached:
  "adapter_compute_layout rt self = Inr self' \<Longrightarrow>
     ap_size self' \<noteq> None \<and> ap_base_addr self' \<noteq> None \<and> ap_valobj self' = ap_valobj self
     \<and> ap_elem_type self' = ap_elem_type self \<and> ap_elem_size self' = ap_elem_size self
     \<and> adapter_compute_layout rt self' = Inr self'"
  by (auto simp: adapter_compute_layout_def andThen_def split: if_splits sum.splits)

lemma vector_layout_size:
  "vp_size self = None \<Longrightarrow> find_member_direct (vp_valobj self) (lit ''elementsCount'') = Inr szm \<Longrightarrow>
   unsigned_or_0 szm = Inr n \<Longrightarrow> vector_compute_layout self = Inr self' \<Longrightarrow> vp_size self' = Some n"
  by (auto simp: vector_compute_layout_def andThen_def split: if_splits sum.splits)

lemma adapter_layout_size:
  "ap_size self = None \<Longrightarrow> find_member_direct (ap_valobj self) (lit ''elements_count_'') = Inr szm \<Longrightarrow>
   adapter_compute_layout rt self = Inr self' \<Longrightarrow> ap_size self' = Some (read_unsigned_value rt szm 0)"
  by (auto simp: adapter_compute_layout_def andThen_def split: if_splits sum.splits)

section \<open>A count of zero\<close>

text \<open>
  Claim C9. For a vector and for an adapter whose count member evaluates to 0 when the
  layout is computed, \<open>num_children\<close> returns 0 and \<open>has_children\<close> returns
  \<open>False\<close>, on the call that computes the layout and on a later call that uses the
  cache; the capacity plays no part.
\<close>

theorem zero_count_no_children:
  "(vp_size self = None \<and> find_member_direct (vp_valobj self) (lit ''elementsCount'') = Inr szm
      \<and> unsigned_or_0 szm = Inr 0 \<and> vector_compute_layout self = Inr self'
    \<longrightarrow> vector_num_children self = Inr (0, self') \<and> vector_has_children self = Inr (False, self')
        \<and> vector_num_children self' = Inr (0, self')
        \<and> vector_has_children self' = Inr (False, self'))
   \<and> (ap_size aself = None
      \<and> find_member_direct (ap_valobj aself) (lit ''elements_count_'') = Inr aszm
      \<and> read_unsigned_value rt aszm 0 = 0 \<and> adapter_compute_layout rt aself = Inr aself'
    \<longrightarrow> adapter_num_children rt aself = Inr (0, aself')
        \<and> adapter_has_children rt aself = Inr (False, aself')
        \<and> adapter_num_children rt aself' = Inr (0, aself')
        \<and> adapter_has_children rt aself' = Inr (False, aself'))"
proof (intro conjI impI)
  assume a: "vp_size self = None \<and> find_member_direct (vp_valobj self) (lit ''elementsCount'') = Inr szm
      \<and> unsigned_or_0 szm = Inr 0 \<and> vector_compute_layout self = Inr self'"
  then have sz: "vp_size self' = Some 0"
    using vector_layout_size by blast
  from a have c: "vector_compute_layout self' = Inr self'"
    using vector_layout_cached by blast
  show "vector_num_children self = Inr (0, self')"
    using a sz by (simp add: vector_num_children_def)
  show "vector_has_children self = Inr (False, self')"
    using a sz by (simp add: vector_has_children_def)
  show "vector_num_children self' = Inr (0, self')"
    using c sz by (simp add: vector_num_children_def)
  show "vector_has_children self' = Inr (False, self')"
    using c sz by (simp add: vector_has_children_def)
next
  assume a: "ap_size aself = None
      \<and> find_member_direct (ap_valobj aself) (lit ''elements_count_'') = Inr aszm
      \<and> read_unsigned_value rt aszm 0 = 0 \<and> adapter_compute_layout rt aself = Inr aself'"
  then have sz: "ap_size aself' = Some 0"
    using adapter_layout_size by fastforce
  from a have c: "adapter_compute_layout rt aself' = Inr aself'"
    using adapter_layout_cached by blast
  show "adapter_num_children rt aself = Inr (0, aself')"
    using a sz by (simp add: adapter_num_children_def)
  show "adapter_has_children rt aself = Inr (False, aself')"
    using a sz by (simp add: adapter_has_children_def)
  show "adapter_num_children rt aself' = Inr (0, aself')"
    using c sz by (simp add: adapter_num_children_def)
  show "adapter_has_children rt aself' = Inr (False, aself')"
    using c sz by (simp add: adapter_has_children_def)
qed

text \<open>The example vector and adapter, evaluated.\<close>

lemma vector_init_example:
  "vector_init (example_vector c (plain_type n) m)
   = Inr (fresh_vector_provider (example_vector c (plain_type n) m) (plain_type n) n)"
  by (simp add: vector_init_def get_template_elem_type_def byte_size_or_0_def
      fresh_vector_provider_def example_vector_def aggregate_def template_type_def plain_type_def)

lemma adapter_init_example:
  "adapter_init (example_adapter c k p (plain_type n))
   = Inr (fresh_adapter_provider (example_adapter c k p (plain_type n)) (plain_type n) n)"
  by (simp add: adapter_init_def get_template_elem_type_def byte_size_or_0_def
      fresh_adapter_provider_def example_adapter_def aggregate_def template_type_def plain_type_def)

lemma vector_example_count:
  "find_member_direct (example_vector c t m) (lit ''elementsCount'') = Inr (Some (scalar c))"
  by (simp add: example_vector_def host_examples)

lemma vector_example_arr:
  "find_member_direct (example_vector c t m) (lit ''arr'') = Inr (Some (std_array m 4096))"
  by (simp add: example_vector_def host_examples)

lemma scalar_unsigned: "unsigned_or_0 (Some (scalar c)) = Inr c"
  by (simp add: host_examples)

lemma std_array_first: "0 < m \<Longrightarrow> get_arr_first_byte_addr (std_array m a) = Inr a"
  by (simp add: get_arr_first_byte_addr_def has_first_element_def host_examples)

lemma std_array_valid: "found_and_valid (Some (std_array m a)) = Inr True"
  by (simp add: host_examples)

lemma vector_example_layout:
  "0 < m \<Longrightarrow> vector_compute_layout (fresh_vector_provider (example_vector c t m) t n)
   = Inr ((fresh_vector_provider (example_vector c t m) t n)
            \<lparr>vp_size := Some c, vp_data_addr := Some 4096\<rparr>)"
  by (simp add: vector_compute_layout_def fresh_vector_provider_def vector_example_count
      vector_example_arr scalar_unsigned std_array_first std_array_valid)

lemma adapter_example_count:
  "find_member_direct (example_adapter c k p t) (lit ''elements_count_'') = Inr (Some (scalar c))"
  by (simp add: example_adapter_def host_examples)

lemma adapter_example_ptr:
  "find_member_direct (example_adapter c k p t) (lit ''elements_'') = Inr (Some (scalar p))"
  by (simp add: example_adapter_def host_examples)

lemma read_scalar_0: "read_unsigned_value ascii_runtime (Some (scalar 0)) 0 = 0"
  by (simp add: read_unsigned_value_def dereference_step_def parse_step_def host_examples
      str_int_def strip_def isspace_def startswith_def ascii_runtime_def ascii_int_def digit_of_def)

lemma read_scalar_3: "read_unsigned_value ascii_runtime (Some (scalar 3)) 0 = 3"
  by (simp add: read_unsigned_value_def dereference_step_def parse_step_def host_examples
      str_int_def strip_def isspace_def startswith_def ascii_runtime_def ascii_int_def digit_of_def)

lemma adapter_example_layout:
  "adapter_compute_layout rt (fresh_adapter_provider (example_adapter c k p t) t n)
   = Inr ((fresh_adapter_provider (example_adapter c k p t) t n)
            \<lparr>ap_size := Some (read_unsigned_value rt (Some (scalar c)) 0), ap_base_addr := Some p\<rparr>)"
  by (simp add: adapter_compute_layout_def fresh_adapter_provider_def adapter_example_count
      adapter_example_ptr scalar_unsigned)


theorem zero_count_no_children_witness:
  "vector_num_children (fresh_vector_provider (example_vector 0 (plain_type 2) 10) (plain_type 2) 2)
   = Inr (0, (fresh_vector_provider (example_vector 0 (plain_type 2) 10) (plain_type 2) 2)
               \<lparr>vp_size := Some 0, vp_data_addr := Some 4096\<rparr>)
   \<and> vector_has_children (fresh_vector_provider (example_vector 0 (plain_type 2) 10) (plain_type 2) 2)
   = Inr (False, (fresh_vector_provider (example_vector 0 (plain_type 2) 10) (plain_type 2) 2)
               \<lparr>vp_size := Some 0, vp_data_addr := Some 4096\<rparr>)
   \<and> adapter_num_children ascii_runtime
       (fresh_adapter_provider (example_adapter 0 8 12288 (plain_type 2)) (plain_type 2) 2)
   = Inr (0, (fresh_adapter_provider (example_adapter 0 8 12288 (plain_type 2)) (plain_type 2) 2)
               \<lparr>ap_size := Some 0, ap_base_addr := Some 12288\<rparr>)
   \<and> adapter_has_children ascii_runtime
       (fresh_adapter_provider (example_adapter 0 8 12288 (plain_type 2)) (plain_type 2) 2)
   = Inr (False, (fresh_adapter_provider (example_adapter 0 8 12288 (plain_type 2)) (plain_type 2) 2)
               \<lparr>ap_size := Some 0, ap_base_addr := Some 12288\<rparr>)"
proof -
  let ?v = "fresh_vector_provider (example_vector 0 (plain_type 2) 10) (plain_type 2) 2"
  let ?a = "fresh_adapter_provider (example_adapter 0 8 12288 (plain_type 2)) (plain_type 2) 2"
  have v1: "vp_size ?v = None"
    by (simp add: fresh_vector_provider_def)
  have v2: "find_member_direct (vp_valobj ?v) (lit ''elementsCount'') = Inr (Some (scalar 0))"
    by (simp add: fresh_vector_provider_def vector_example_count)
  have v3: "unsigned_or_0 (Some (scalar 0)) = Inr 0"
    by (rule scalar_unsigned)
  have v4: "vector_compute_layout ?v = Inr (?v\<lparr>vp_size := Some 0, vp_data_addr := Some 4096\<rparr>)"
    by (simp add: vector_example_layout)
  have a1: "ap_size ?a = None"
    by (simp add: fresh_adapter_provider_def)
  have a2: "find_member_direct (ap_valobj ?a) (lit ''elements_count_'') = Inr (Some (scalar 0))"
    by (simp add: fresh_adapter_provider_def adapter_example_count)
  have a3: "read_unsigned_value ascii_runtime (Some (scalar 0)) 0 = 0"
    by (rule read_scalar_0)
  have a4: "adapter_compute_layout ascii_runtime ?a
            = Inr (?a\<lparr>ap_size := Some 0, ap_base_addr := Some 12288\<rparr>)"
    by (simp add: adapter_example_layout a3)
  show ?thesis
    using zero_count_no_children [of ?v "Some (scalar 0)"
        "?v\<lparr>vp_size := Some 0, vp_data_addr := Some 4096\<rparr>" ?a "Some (scalar 0)"
        ascii_runtime "?a\<lparr>ap_size := Some 0, ap_base_addr := Some 12288\<rparr>"]
      v1 v2 v3 v4 a1 a2 a3 a4
    by blast
qed

section \<open>Children by index\<close>

lemma vector_child_eq:
  assumes "vector_compute_layout self = Inr self'"
    and "vp_size self' = Some sz" and "vp_data_addr self' = Some a"
    and "vp_elem_type self' = Some ty"
  shows "vector_get_child_at_index self i =
           (if i < 0 \<or> sz \<le> i \<or> \<not> type_truth ty \<or> a = 0 then Inr (SBValue_default, self')
            else andThen (CreateValueFromAddress (vp_valobj self') (index_label i)
                            (a + i * vp_elem_size self') ty)
                   (\<lambda>v. Inr (Created v, self')))"
  using assms by (simp add: vector_get_child_at_index_def type_truthy_def)

lemma adapter_child_eq:
  assumes "adapter_compute_layout rt self = Inr self'"
    and "ap_size self' = Some sz" and "ap_base_addr self' = Some a"
    and "ap_elem_type self' = Some ty"
  shows "adapter_get_child_at_index rt self i =
           (if i < 0 \<or> sz \<le> i \<or> \<not> type_truth ty \<or> a = 0 \<or> ap_elem_size self' = 0
            then Inr (SBValue_default, self')
            else andThen (CreateValueFromAddress (ap_valobj self') (index_label i)
                            (a + i * ap_elem_size self') ty)
                   (\<lambda>v. Inr (Created v, self')))"
  using assms by (simp add: adapter_get_child_at_index_def type_truthy_def)

lemma created_not_default:
  "andThen m (\<lambda>v. Inr (Created v, s)) \<noteq> Inr (SBValue_default, s')"
  by (cases m) simp_all

text \<open>
  Claim C5. For both providers, with a resolved element type, a nonzero base address
  and a positive stride, \<open>get_child_at_index i\<close> hands back what the host makes at
  \<open>base + i * stride\<close> when \<open>0 \<le> i < size\<close> and the absent child otherwise: the
  result is the absent child if and only if the index is out of range, and it is for
  \<open>i = size\<close> and for \<open>i = -1\<close>.
\<close>

theorem child_at_index_bounds:
  "(vector_compute_layout self = Inr self' \<and> vp_size self' = Some sz
      \<and> vp_data_addr self' = Some a \<and> a \<noteq> 0 \<and> vp_elem_type self' = Some ty \<and> type_truth ty
      \<and> 0 < vp_elem_size self'
    \<longrightarrow> vector_get_child_at_index self i =
          (if 0 \<le> i \<and> i < sz
           then andThen (CreateValueFromAddress (vp_valobj self') (index_label i)
                           (a + i * vp_elem_size self') ty)
                  (\<lambda>v. Inr (Created v, self'))
           else Inr (SBValue_default, self'))
        \<and> (vector_get_child_at_index self i = Inr (SBValue_default, self')
             \<longleftrightarrow> \<not> (0 \<le> i \<and> i < sz))
        \<and> vector_get_child_at_index self sz = Inr (SBValue_default, self')
        \<and> vector_get_child_at_index self (- 1) = Inr (SBValue_default, self'))
   \<and> (adapter_compute_layout rt aself = Inr aself' \<and> ap_size aself' = Some asz
      \<and> ap_base_addr aself' = Some b \<and> b \<noteq> 0 \<and> ap_elem_type aself' = Some aty
      \<and> type_truth aty \<and> 0 < ap_elem_size aself'
    \<longrightarrow> adapter_get_child_at_index rt aself j =
          (if 0 \<le> j \<and> j < asz
           then andThen (CreateValueFromAddress (ap_valobj aself') (index_label j)
                           (b + j * ap_elem_size aself') aty)
                  (\<lambda>v. Inr (Created v, aself'))
           else Inr (SBValue_default, aself'))
        \<and> (adapter_get_child_at_index rt aself j = Inr (SBValue_default, aself')
             \<longleftrightarrow> \<not> (0 \<le> j \<and> j < asz))
        \<and> adapter_get_child_at_index rt aself asz = Inr (SBValue_default, aself')
        \<and> adapter_get_child_at_index rt aself (- 1) = Inr (SBValue_default, aself'))"
proof (intro conjI impI)
  assume h: "vector_compute_layout self = Inr self' \<and> vp_size self' = Some sz
      \<and> vp_data_addr self' = Some a \<and> a \<noteq> 0 \<and> vp_elem_type self' = Some ty \<and> type_truth ty
      \<and> 0 < vp_elem_size self'"
  then have eq: "\<And>k. vector_get_child_at_index self k =
          (if 0 \<le> k \<and> k < sz
           then andThen (CreateValueFromAddress (vp_valobj self') (index_label k)
                           (a + k * vp_elem_size self') ty)
                  (\<lambda>v. Inr (Created v, self'))
           else Inr (SBValue_default, self'))"
    by (auto simp: vector_child_eq [of self self' sz a ty])
  show "vector_get_child_at_index self i =
          (if 0 \<le> i \<and> i < sz
           then andThen (CreateValueFromAddress (vp_valobj self') (index_label i)
                           (a + i * vp_elem_size self') ty)
                  (\<lambda>v. Inr (Created v, self'))
           else Inr (SBValue_default, self'))"
    by (rule eq)
  show "vector_get_child_at_index self i = Inr (SBValue_default, self')
             \<longleftrightarrow> \<not> (0 \<le> i \<and> i < sz)"
    by (simp add: eq created_not_default)
  show "vector_get_child_at_index self sz = Inr (SBValue_default, self')"
    by (simp add: eq)
  show "vector_get_child_at_index self (- 1) = Inr (SBValue_default, self')"
    by (simp add: eq)
next
  assume h: "adapter_compute_layout rt aself = Inr aself' \<and> ap_size aself' = Some asz
      \<and> ap_base_addr aself' = Some b \<and> b \<noteq> 0 \<and> ap_elem_type aself' = Some aty
      \<and> type_truth aty \<and> 0 < ap_elem_size aself'"
  then have eq: "\<And>k. adapter_get_child_at_index rt aself k =
          (if 0 \<le> k \<and> k < asz
           then andThen (CreateValueFromAddress (ap_valobj aself') (index_label k)
                           (b + k * ap_elem_size aself') aty)
                  (\<lambda>v. Inr (Created v, aself'))
           else Inr (SBValue_default, aself'))"
    by (auto simp: adapter_child_eq [of rt aself aself' asz b aty])
  show "adapter_get_child_at_index rt aself j =
          (if 0 \<le> j \<and> j < asz
           then andThen (CreateValueFromAddress (ap_valobj aself') (index_label j)
                           (b + j * ap_elem_size aself') aty)
                  (\<lambda>v. Inr (Created v, aself'))
           else Inr (SBValue_default, aself'))"
    by (rule eq)
  show "adapter_get_child_at_index rt aself j = Inr (SBValue_default, aself')
             \<longleftrightarrow> \<not> (0 \<le> j \<and> j < asz)"
    by (simp add: eq created_not_default)
  show "adapter_get_child_at_index rt aself asz = Inr (SBValue_default, aself')"
    by (simp add: eq)
  show "adapter_get_child_at_index rt aself (- 1) = Inr (SBValue_default, aself')"
    by (simp add: eq)
qed


lemma aggregate_create:
  "CreateValueFromAddress (aggregate ms ty proc a) label addr t = Inr (scalar_at addr addr)"
  by (simp add: aggregate_def)

theorem child_at_index_bounds_witness:
  "vector_get_child_at_index
     (fresh_vector_provider (example_vector 3 (plain_type 2) 10) (plain_type 2) 2) 1
   = Inr (Created (scalar_at 4098 4098),
          (fresh_vector_provider (example_vector 3 (plain_type 2) 10) (plain_type 2) 2)
            \<lparr>vp_size := Some 3, vp_data_addr := Some 4096\<rparr>)
   \<and> vector_get_child_at_index
       (fresh_vector_provider (example_vector 3 (plain_type 2) 10) (plain_type 2) 2) 3
   = Inr (SBValue_default,
          (fresh_vector_provider (example_vector 3 (plain_type 2) 10) (plain_type 2) 2)
            \<lparr>vp_size := Some 3, vp_data_addr := Some 4096\<rparr>)
   \<and> adapter_get_child_at_index ascii_runtime
       (fresh_adapter_provider (example_adapter 3 8 12288 (plain_type 2)) (plain_type 2) 2) 2
   = Inr (Created (scalar_at 12292 12292),
          (fresh_adapter_provider (example_adapter 3 8 12288 (plain_type 2)) (plain_type 2) 2)
            \<lparr>ap_size := Some 3, ap_base_addr := Some 12288\<rparr>)
   \<and> adapter_get_child_at_index ascii_runtime
       (fresh_adapter_provider (example_adapter 3 8 12288 (plain_type 2)) (plain_type 2) 2) (- 1)
   = Inr (SBValue_default,
          (fresh_adapter_provider (example_adapter 3 8 12288 (plain_type 2)) (plain_type 2) 2)
            \<lparr>ap_size := Some 3, ap_base_addr := Some 12288\<rparr>)"
proof -
  let ?v = "fresh_vector_provider (example_vector 3 (plain_type 2) 10) (plain_type 2) 2"
  let ?v' = "?v\<lparr>vp_size := Some 3, vp_data_addr := Some 4096\<rparr>"
  let ?a = "fresh_adapter_provider (example_adapter 3 8 12288 (plain_type 2)) (plain_type 2) 2"
  let ?a' = "?a\<lparr>ap_size := Some 3, ap_base_addr := Some 12288\<rparr>"
  have v: "vector_compute_layout ?v = Inr ?v' \<and> vp_size ?v' = Some 3
      \<and> vp_data_addr ?v' = Some 4096 \<and> (4096::int) \<noteq> 0 \<and> vp_elem_type ?v' = Some (plain_type 2)
      \<and> type_truth (plain_type 2) \<and> 0 < vp_elem_size ?v'"
    by (simp add: vector_example_layout) (simp add: fresh_vector_provider_def plain_type_def)
  have a: "adapter_compute_layout ascii_runtime ?a = Inr ?a' \<and> ap_size ?a' = Some 3
      \<and> ap_base_addr ?a' = Some 12288 \<and> (12288::int) \<noteq> 0
      \<and> ap_elem_type ?a' = Some (plain_type 2) \<and> type_truth (plain_type 2)
      \<and> 0 < ap_elem_size ?a'"
    by (simp add: adapter_example_layout read_scalar_3)
       (simp add: fresh_adapter_provider_def plain_type_def)
  have cv: "CreateValueFromAddress (vp_valobj ?v) label addr t = Inr (scalar_at addr addr)"
    for label addr t
    by (simp add: fresh_vector_provider_def example_vector_def aggregate_create)
  have ca: "CreateValueFromAddress (ap_valobj ?a) label addr t = Inr (scalar_at addr addr)"
    for label addr t
    by (simp add: fresh_adapter_provider_def example_adapter_def aggregate_create)
  have sv: "vp_elem_size ?v = 2" and sa: "ap_elem_size ?a = 2"
    by (simp_all add: fresh_vector_provider_def fresh_adapter_provider_def)
  from child_at_index_bounds [of ?v ?v' 3 4096 "plain_type 2" 1 ascii_runtime ?a ?a' 3 12288
      "plain_type 2" 2] v a
  have "vector_get_child_at_index ?v 1 = Inr (Created (scalar_at 4098 4098), ?v')"
    and "vector_get_child_at_index ?v 3 = Inr (SBValue_default, ?v')"
    and "adapter_get_child_at_index ascii_runtime ?a 2 = Inr (Created (scalar_at 12292 12292), ?a')"
    and "adapter_get_child_at_index ascii_runtime ?a (- 1) = Inr (SBValue_default, ?a')"
    by (simp_all add: cv ca sv sa)
  then show ?thesis by blast
qed

section \<open>A stride of zero\<close>

text \<open>The adapter checks the stride, and both providers check that the element type is
  resolved.\<close>

lemma adapter_zero_stride_absent:
  assumes "adapter_compute_layout rt self = Inr self'" and "ap_elem_size self' = 0"
  shows "adapter_get_child_at_index rt self i = Inr (SBValue_default, self')"
proof -
  from assms(1) obtain sz a where "ap_size self' = Some sz" "ap_base_addr self' = Some a"
    using adapter_layout_cached by fastforce
  with assms show ?thesis
    by (simp add: adapter_get_child_at_index_def)
qed

lemma vector_unresolved_type_absent:
  assumes "vector_compute_layout self = Inr self'" and "\<not> type_truthy (vp_elem_type self')"
  shows "vector_get_child_at_index self i = Inr (SBValue_default, self')"
proof -
  from assms(1) obtain sz a where "vp_size self' = Some sz" "vp_data_addr self' = Some a"
    using vector_layout_cached by fastforce
  with assms show ?thesis
    by (simp add: vector_get_child_at_index_def)
qed

text \<open>
  Claim C4. With a stride of 0, \<open>get_child_at_index\<close> is to return the absent child
  for every index. The vector provider does not test the stride: for a valid element
  type of byte size 0, a count of 1 and a nonzero data address, index 0 yields the
  child the host makes at the data address.
\<close>

theorem vector_child_with_zero_stride:
  "vector_init (example_vector 1 (plain_type 0) 8)
   = Inr (fresh_vector_provider (example_vector 1 (plain_type 0) 8) (plain_type 0) 0)
   \<and> vp_elem_size (fresh_vector_provider (example_vector 1 (plain_type 0) 8) (plain_type 0) 0) = 0
   \<and> vector_get_child_at_index
       (fresh_vector_provider (example_vector 1 (plain_type 0) 8) (plain_type 0) 0) 0
     = Inr (Created (scalar_at 4096 4096),
            (fresh_vector_provider (example_vector 1 (plain_type 0) 8) (plain_type 0) 0)
              \<lparr>vp_size := Some 1, vp_data_addr := Some 4096\<rparr>)"
proof -
  let ?z = "fresh_vector_provider (example_vector 1 (plain_type 0) 8) (plain_type 0) 0"
  let ?z' = "?z\<lparr>vp_size := Some 1, vp_data_addr := Some 4096\<rparr>"
  have l: "vector_compute_layout ?z = Inr ?z'"
    by (simp add: vector_example_layout)
  have f: "vp_size ?z' = Some 1" "vp_data_addr ?z' = Some 4096"
    "vp_elem_type ?z' = Some (plain_type 0)" "vp_elem_size ?z' = 0"
    "vp_valobj ?z' = example_vector 1 (plain_type 0) 8"
    by (simp_all add: fresh_vector_provider_def)
  have t: "type_truth (plain_type 0)"
    by (simp add: plain_type_def)
  have c: "CreateValueFromAddress (example_vector 1 (plain_type 0) 8) label addr ty
           = Inr (scalar_at addr addr)" for label addr ty
    by (simp add: example_vector_def aggregate_create)
  have "vector_get_child_at_index ?z 0 = Inr (Created (scalar_at 4096 4096), ?z')"
    by (simp add: vector_child_eq [OF l f(1) f(2) f(3)] f t c)
  then show ?thesis
    by (simp add: vector_init_example) (simp add: fresh_vector_provider_def)
qed

theorem vector_child_with_zero_stride_witness:
  "vector_get_child_at_index
     (fresh_vector_provider (example_vector 1 (plain_type 0) 8) (plain_type 0) 0) 0
   \<noteq> Inr (SBValue_default,
          (fresh_vector_provider (example_vector 1 (plain_type 0) 8) (plain_type 0) 0)
            \<lparr>vp_size := Some 1, vp_data_addr := Some 4096\<rparr>)"
  using vector_child_with_zero_stride by simp

section \<open>The value coercer\<close>

text \<open>Each \<open>try\<close> block of \<open>_read_unsigned_value\<close> is the step of the specification:
  a raise and a block that runs to its end are both a failed step.\<close>

lemma dereference_step_spec:
  "(case dereference_step field call dflt of Inr (Some r) \<Rightarrow> Some r | _ \<Rightarrow> None)
   = spec_dereference field call dflt"
  by (cases "Dereference field call")
     (auto simp: dereference_step_def spec_dereference_def andThen_def split: sum.splits bool.splits)

lemma parse_step_spec:
  "(case parse_step rt field dflt of Inr (Some r) \<Rightarrow> Some r | _ \<Rightarrow> None)
   = spec_parse rt field dflt"
proof (cases "GetValue field")
  case (Inl e)
  then show ?thesis by (simp add: parse_step_def spec_parse_def)
next
  case (Inr s0)
  show ?thesis
  proof (cases s0)
    case None
    with Inr show ?thesis by (simp add: parse_step_def spec_parse_def)
  next
    case (Some s1)
    have d: "(case dereference_step field 1 dflt of Inr (Some r) \<Rightarrow> Some r | _ \<Rightarrow> None)
             = spec_dereference field 1 dflt"
      by (rule dereference_step_spec)
    show ?thesis
      using Inr Some d
      by (auto simp: parse_step_def spec_parse_def address_shaped_def spec_parse_int_def Let_def
          andThen_def split: sum.splits option.splits)
  qed
qed

text \<open>
  Claim C7. For a field that is present and valid, \<open>_read_unsigned_value\<close> is the
  chain of the specification: the dereference, then the parse of the text (decimal, or
  hexadecimal after a second dereference when the text is address-shaped), then the raw
  unsigned accessor, the first step that succeeds giving the result and the default
  being returned when none does. A field that is absent or not valid gives the default
  at once.
\<close>

theorem read_unsigned_value_steps:
  "read_unsigned_value rt sbval0 dflt =
     (case sbval0 of
        None \<Rightarrow> dflt
      | Some field \<Rightarrow>
          if truthy_and_valid field = Inr True then spec_coerce rt field dflt else dflt)"
proof (cases sbval0)
  case None
  then show ?thesis by (simp add: read_unsigned_value_def)
next
  case (Some field)
  show ?thesis
  proof (cases "truthy_and_valid field = Inr True")
    case False
    with Some show ?thesis
      by (auto simp: read_unsigned_value_def split: sum.splits bool.splits)
  next
    case True
    have 1: "spec_dereference field 0 dflt
             = (case dereference_step field 0 dflt of Inr (Some r) \<Rightarrow> Some r | _ \<Rightarrow> None)"
      by (simp add: dereference_step_spec)
    have 2: "spec_parse rt field dflt
             = (case parse_step rt field dflt of Inr (Some r) \<Rightarrow> Some r | _ \<Rightarrow> None)"
      by (simp add: parse_step_spec)
    show ?thesis
      using Some True
      by (simp add: read_unsigned_value_def spec_coerce_def 1 2 spec_raw_def
          split: sum.splits option.splits)
  qed
qed

lemmas coercer_eval =
  spec_coerce_def spec_dereference_def spec_parse_def spec_raw_def spec_parse_int_def
  address_shaped_def startswith_def strip_def isspace_def ascii_runtime_def ascii_int_def
  digit_of_def text_field_def reference_to_def host_examples

theorem read_unsigned_value_steps_witness:
  "read_unsigned_value ascii_runtime (Some (reference_to 7)) 0 = 7
   \<and> read_unsigned_value ascii_runtime (Some (text_field (lit '' 42 '') 99)) 0 = 42
   \<and> read_unsigned_value ascii_runtime (Some (text_field (lit ''0x1f'') 99)) 0 = 31
   \<and> read_unsigned_value ascii_runtime (Some (text_field (lit ''n/a'') 99)) 0 = 99
   \<and> read_unsigned_value ascii_runtime (Some invalid_value) 5 = 5
   \<and> read_unsigned_value ascii_runtime None 5 = 5"
proof -
  have "read_unsigned_value ascii_runtime (Some (reference_to 7)) 0 = 7"
    using read_unsigned_value_steps [of ascii_runtime "Some (reference_to 7)" 0]
    by (simp add: coercer_eval)
  moreover have "read_unsigned_value ascii_runtime (Some (text_field (lit '' 42 '') 99)) 0 = 42"
    using read_unsigned_value_steps [of ascii_runtime "Some (text_field (lit '' 42 '') 99)" 0]
    by (simp add: coercer_eval)
  moreover have "read_unsigned_value ascii_runtime (Some (text_field (lit ''0x1f'') 99)) 0 = 31"
    using read_unsigned_value_steps [of ascii_runtime "Some (text_field (lit ''0x1f'') 99)" 0]
    by (simp add: coercer_eval)
  moreover have "read_unsigned_value ascii_runtime (Some (text_field (lit ''n/a'') 99)) 0 = 99"
    using read_unsigned_value_steps [of ascii_runtime "Some (text_field (lit ''n/a'') 99)" 0]
    by (simp add: coercer_eval)
  moreover have "read_unsigned_value ascii_runtime (Some invalid_value) 5 = 5"
    using read_unsigned_value_steps [of ascii_runtime "Some invalid_value" 5]
    by (simp add: coercer_eval)
  moreover have "read_unsigned_value ascii_runtime None 5 = 5"
    using read_unsigned_value_steps [of ascii_runtime None 5]
    by simp
  ultimately show ?thesis by blast
qed

section \<open>The array-backing locator\<close>

lemma has_first_element_cases:
  "has_first_element m = Inr b \<Longrightarrow>
     (truthy_and_valid m = Inr False \<and> \<not> b)
     \<or> (truthy_and_valid m = Inr True \<and> (\<exists>n. GetNumChildren m = Inr n \<and> b = (0 < n)))"
  by (auto simp: has_first_element_def andThen_def split: sum.splits if_splits)

text \<open>
  Claim C8. The locator tries \<open>_M_elems\<close> first and then \<open>__elems_\<close>, the member of
  libstdc++ and the member of libc++. When \<open>_M_elems\<close> exists with at least one child,
  the address is the load address of its first element and the byte count is its child
  count, whatever \<open>__elems_\<close> is. When \<open>_M_elems\<close> does not exist and \<open>__elems_\<close>
  exists with at least one child, address and count are those of \<open>__elems_\<close>. When
  neither has a child, the address is that of the array field itself; the count is then
  the child count of the first member that is valid, and without one the second
  template argument of the array's type, or 0.
\<close>

theorem array_backing_locator:
  assumes "GetChildMemberWithName arr (lit ''_M_elems'') = Inr m_elems"
  shows "(has_first_element m_elems = Inr True
          \<longrightarrow> get_arr_first_byte_addr arr = andThen (GetChildAtIndex m_elems 0) GetLoadAddress
              \<and> get_arr_num_bytes arr = GetNumChildren m_elems)
       \<and> (truthy_and_valid m_elems = Inr False
            \<and> GetChildMemberWithName arr (lit ''__elems_'') = Inr elems
            \<and> has_first_element elems = Inr True
          \<longrightarrow> get_arr_first_byte_addr arr = andThen (GetChildAtIndex elems 0) GetLoadAddress
              \<and> get_arr_num_bytes arr = GetNumChildren elems)
       \<and> (has_first_element m_elems = Inr False
            \<and> GetChildMemberWithName arr (lit ''__elems_'') = Inr elems
            \<and> has_first_element elems = Inr False
          \<longrightarrow> get_arr_first_byte_addr arr = andThen (AddressOf arr) GetLoadAddress
              \<and> get_arr_num_bytes arr =
                  (if truthy_and_valid m_elems = Inr True then GetNumChildren m_elems
                   else if truthy_and_valid elems = Inr True then GetNumChildren elems
                   else (case andThen (GetType arr) (\<lambda>t. GetTemplateArgumentAsUnsigned t 1) of
                           Inr n \<Rightarrow> Inr n
                         | Inl e \<Rightarrow> Inr 0)))"
proof (intro conjI impI)
  assume h: "has_first_element m_elems = Inr True"
  then have "truthy_and_valid m_elems = Inr True"
    using has_first_element_cases by blast
  with h assms
  show "get_arr_first_byte_addr arr = andThen (GetChildAtIndex m_elems 0) GetLoadAddress"
    and "get_arr_num_bytes arr = GetNumChildren m_elems"
    by (simp_all add: get_arr_first_byte_addr_def get_arr_num_bytes_def)
next
  assume h: "truthy_and_valid m_elems = Inr False
            \<and> GetChildMemberWithName arr (lit ''__elems_'') = Inr elems
            \<and> has_first_element elems = Inr True"
  then have e: "truthy_and_valid elems = Inr True"
    using has_first_element_cases by blast
  from h have m: "has_first_element m_elems = Inr False"
    by (simp add: has_first_element_def)
  from h m assms
  show "get_arr_first_byte_addr arr = andThen (GetChildAtIndex elems 0) GetLoadAddress"
    by (simp add: get_arr_first_byte_addr_def)
  from h assms e
  show "get_arr_num_bytes arr = GetNumChildren elems"
    by (simp add: get_arr_num_bytes_def)
next
  assume h: "has_first_element m_elems = Inr False
            \<and> GetChildMemberWithName arr (lit ''__elems_'') = Inr elems
            \<and> has_first_element elems = Inr False"
  with assms
  show "get_arr_first_byte_addr arr = andThen (AddressOf arr) GetLoadAddress"
    by (simp add: get_arr_first_byte_addr_def)
  from h have m: "truthy_and_valid m_elems = Inr False \<or> truthy_and_valid m_elems = Inr True"
    and e: "truthy_and_valid elems = Inr False \<or> truthy_and_valid elems = Inr True"
    using has_first_element_cases by blast+
  from h assms m e
  show "get_arr_num_bytes arr =
          (if truthy_and_valid m_elems = Inr True then GetNumChildren m_elems
           else if truthy_and_valid elems = Inr True then GetNumChildren elems
           else (case andThen (GetType arr) (\<lambda>t. GetTemplateArgumentAsUnsigned t 1) of
                   Inr n \<Rightarrow> Inr n
                 | Inl e \<Rightarrow> Inr 0))"
    by (auto simp: get_arr_num_bytes_def)
qed

lemmas locator_eval =
  libcxx_array_def opaque_array_def has_first_element_def host_examples

theorem array_backing_locator_witness:
  "get_arr_first_byte_addr (std_array 10 4096) = Inr 4096
   \<and> get_arr_num_bytes (std_array 10 4096) = Inr 10
   \<and> get_arr_first_byte_addr libcxx_array = Inr 4096
   \<and> get_arr_num_bytes libcxx_array = Inr 3
   \<and> get_arr_first_byte_addr opaque_array = Inr 4000
   \<and> get_arr_num_bytes opaque_array = Inr 0"
proof -
  have 1: "GetChildMemberWithName (std_array 10 4096) (lit ''_M_elems'') = Inr (byte_array 10 4096)"
    by (simp add: locator_eval)
  have 2: "has_first_element (byte_array 10 4096) = Inr True"
    by (simp add: locator_eval)
  have 3: "GetChildMemberWithName libcxx_array (lit ''_M_elems'') = Inr invalid_value"
    by (simp add: locator_eval)
  have 4: "truthy_and_valid invalid_value = Inr False
           \<and> GetChildMemberWithName libcxx_array (lit ''__elems_'') = Inr (byte_array 3 4096)
           \<and> has_first_element (byte_array 3 4096) = Inr True"
    by (simp add: locator_eval)
  have 5: "GetChildMemberWithName opaque_array (lit ''_M_elems'') = Inr invalid_value"
    by (simp add: locator_eval)
  have 6: "has_first_element invalid_value = Inr False
           \<and> GetChildMemberWithName opaque_array (lit ''__elems_'') = Inr invalid_value
           \<and> has_first_element invalid_value = Inr False"
    by (simp add: locator_eval)
  have "get_arr_first_byte_addr (std_array 10 4096) = Inr 4096"
    and "get_arr_num_bytes (std_array 10 4096) = Inr 10"
    using array_backing_locator [OF 1] 2 by (simp_all add: host_examples)
  moreover have "get_arr_first_byte_addr libcxx_array = Inr 4096"
    and "get_arr_num_bytes libcxx_array = Inr 3"
    using array_backing_locator [OF 3, of "byte_array 3 4096"] 4 by (simp_all add: host_examples)
  moreover have "get_arr_first_byte_addr opaque_array = Inr 4000"
    and "get_arr_num_bytes opaque_array = Inr 0"
    using array_backing_locator [OF 5, of invalid_value] 6
    by (simp_all add: opaque_array_def host_examples)
  ultimately show ?thesis by blast
qed

section \<open>The static-string summary\<close>

text \<open>A member the recursive lookup returns is truthy and valid.\<close>

lemma found_truth:
  "find_member_recursive d v n = Inr (Some m) \<Longrightarrow> truthy_and_valid m = Inr True"
  "search_bases d' v' n' i k = Inr (Some m) \<Longrightarrow> truthy_and_valid m = Inr True"
proof (induction d v n and d' v' n' i k rule: find_member_recursive_search_bases.induct)
  case (1 valobj name)
  then show ?case by simp
next
  case (2 depth valobj name)
  then show ?case
    by (auto simp: andThen_def split: sum.splits if_splits)
next
  case (3 depth valobj name i)
  then show ?case by simp
next
  case (4 depth valobj name i k)
  then show ?case
    by (auto simp: andThen_def found_and_valid_def split: sum.splits if_splits option.splits)
qed

lemma found_option_truth:
  "find_member_recursive d v n = Inr (Some m) \<Longrightarrow> option_truth (Some m)"
  using found_truth(1) [of d v n m]
  by (auto simp: option_truth_def truthy_and_valid_def split: if_splits)

text \<open>For \<open>tail \<ge> head\<close> the length the code computes is the clamp of the
  specification.\<close>

lemma bounded_length_spec: "h \<le> t \<Longrightarrow> bounded_length h t c = spec_length h t c"
  by (auto simp: bounded_length_def spec_length_def clamp_def min_def max_def Let_def)

text \<open>The body of the summary once the three members are found and read.\<close>

lemma static_string_body_found:
  assumes "GetTarget valobj = Inr target" and "GetProcess target = Inr process"
    and "find_member_recursive (recursion_limit rt) valobj (lit ''head_'') = Inr (Some head)"
    and "find_member_recursive (recursion_limit rt) valobj (lit ''tail_'') = Inr (Some tail)"
    and "find_member_recursive (recursion_limit rt) valobj (lit ''max_length_'') = Inr (Some maxl)"
    and "GetValueAsUnsigned head 0 = Inr h" and "GetValueAsUnsigned tail 0 = Inr t"
    and "GetValueAsUnsigned maxl 0 = Inr c"
  shows "static_string_body rt valobj =
           (if h = 0 \<or> t = 0 \<or> t < h then Inr ([34, 34] @ lit '' len=0 cap='' @ str_int c)
            else andThen (ReadMemory process h (min (spec_length h t c) 1024)) (\<lambda>(fail, data).
                   if fail \<or> data = PyNone
                   then Inr (lit ''<static_string: unreadable memory> len=''
                             @ str_int (spec_length h t c) @ lit '' cap='' @ str_int c)
                   else andThen (to_bytes data) (\<lambda>b.
                          Inr (render_string rt b (spec_length h t c) c))))"
proof -
  have tr: "option_truth (Some head)" "option_truth (Some tail)" "option_truth (Some maxl)"
    using assms(3,4,5) by (auto intro: found_option_truth)
  show ?thesis
  proof (cases "h = 0 \<or> t = 0 \<or> t < h")
    case True
    then show ?thesis
      using assms tr by (simp add: static_string_body_def)
  next
    case False
    then have "h \<le> t" by simp
    then have L: "bounded_length h t c = spec_length h t c"
      by (rule bounded_length_spec)
    show ?thesis
      using assms tr False by (simp add: static_string_body_def Let_def L)
  qed
qed

text \<open>
  Claim C3. When the head address is 0, or the tail address is 0, or the tail is below
  the head, the summary is exactly \<open>"" len=0 cap=C\<close> with the declared capacity
  \<open>C\<close>, whatever the other values are.
\<close>

theorem empty_string_summary:
  assumes "GetTarget valobj = Inr target" and "GetProcess target = Inr process"
    and "find_member_recursive (recursion_limit rt) valobj (lit ''head_'') = Inr (Some head)"
    and "find_member_recursive (recursion_limit rt) valobj (lit ''tail_'') = Inr (Some tail)"
    and "find_member_recursive (recursion_limit rt) valobj (lit ''max_length_'') = Inr (Some maxl)"
    and "GetValueAsUnsigned head 0 = Inr h" and "GetValueAsUnsigned tail 0 = Inr t"
    and "GetValueAsUnsigned maxl 0 = Inr c"
    and "h = 0 \<or> t = 0 \<or> t < h"
  shows "static_string_summary rt valobj = Inr ([34, 34] @ lit '' len=0 cap='' @ str_int c)"
  using static_string_body_found [OF assms(1-8)] assms(9)
  by (simp add: static_string_summary_def)


text \<open>The example string, evaluated.\<close>

lemma find_member_recursive_hit:
  assumes "0 < d" and "GetChildMemberWithName v n = Inr m" and "truthy_and_valid m = Inr True"
  shows "find_member_recursive d v n = Inr (Some m)"
proof -
  from assms(1) obtain d' where "d = Suc d'" by (cases d) auto
  with assms(2,3) show ?thesis by simp
qed

lemma example_string_members:
  "GetTarget (example_string h t c bs) = Inr (SBTarget (Inr (memory_process h bs)))"
  "find_member_recursive (recursion_limit ascii_runtime) (example_string h t c bs) (lit ''head_'')
   = Inr (Some (scalar h))"
  "find_member_recursive (recursion_limit ascii_runtime) (example_string h t c bs) (lit ''tail_'')
   = Inr (Some (scalar t))"
  "find_member_recursive (recursion_limit ascii_runtime) (example_string h t c bs)
     (lit ''max_length_'') = Inr (Some (scalar c))"
proof -
  have d: "0 < recursion_limit ascii_runtime"
    by (simp add: ascii_runtime_def)
  have v: "truthy_and_valid (scalar x) = Inr True" for x
    by (simp add: host_examples)
  show "GetTarget (example_string h t c bs) = Inr (SBTarget (Inr (memory_process h bs)))"
    by (simp add: example_string_def aggregate_def)
  show "find_member_recursive (recursion_limit ascii_runtime) (example_string h t c bs)
          (lit ''head_'') = Inr (Some (scalar h))"
    by (rule find_member_recursive_hit [OF d _ v]) (simp add: example_string_def aggregate_def lit_def)
  show "find_member_recursive (recursion_limit ascii_runtime) (example_string h t c bs)
          (lit ''tail_'') = Inr (Some (scalar t))"
    by (rule find_member_recursive_hit [OF d _ v]) (simp add: example_string_def aggregate_def lit_def)
  show "find_member_recursive (recursion_limit ascii_runtime) (example_string h t c bs)
          (lit ''max_length_'') = Inr (Some (scalar c))"
    by (rule find_member_recursive_hit [OF d _ v]) (simp add: example_string_def aggregate_def lit_def)
qed

lemma scalar_value: "GetValueAsUnsigned (scalar x) d = Inr x"
  by (simp add: scalar_def scalar_at_def)

lemma target_process: "GetProcess (SBTarget p) = p"
  by simp

theorem empty_string_summary_witness:
  "GetValueAsUnsigned (scalar 0) 0 = Inr 0
   \<and> static_string_summary ascii_runtime (example_string 0 4101 16 [])
     = Inr ([34, 34] @ lit '' len=0 cap=16'')"
proof -
  have "static_string_summary ascii_runtime (example_string 0 4101 16 [])
        = Inr ([34, 34] @ lit '' len=0 cap='' @ str_int 16)"
    by (rule empty_string_summary [OF example_string_members(1) target_process
          example_string_members(2,3,4) scalar_value scalar_value scalar_value]) simp
  then show ?thesis
    by (simp add: scalar_value str_int_def lit_def)
qed

lemma memory_read:
  "ReadMemory (memory_process h bs) h n = Inr (False, PyBytes (take (nat n) bs))"
  by (simp add: memory_process_def)





section \<open>The preview and the first null byte\<close>

lemma find_byte_first:
  "c \<notin> set pre \<Longrightarrow> find_byte c (pre @ c # rest) = int (length pre)"
  by (induction pre) (auto simp: Let_def)

lemma find_byte_none: "c \<notin> set b \<Longrightarrow> find_byte c b = - 1"
  by (induction b) (auto simp: Let_def)

lemma render_string_null:
  assumes "CHR 0x00 \<notin> set pre"
  shows "render_string rt (pre @ CHR 0x00 # rest) len cap =
           [34] @ truncate_display (escape (decode_text rt pre)) @ [34]
           @ lit '' len='' @ str_int len @ lit '' cap='' @ str_int cap"
  using find_byte_first [OF assms, of rest]
  by (simp add: render_string_def Let_def)

lemma render_string_no_null:
  assumes "CHR 0x00 \<notin> set b"
  shows "render_string rt b len cap =
           [34] @ truncate_display (escape (decode_text rt b)) @ [34]
           @ lit '' len='' @ str_int len @ lit '' cap='' @ str_int cap"
  using find_byte_none [OF assms]
  by (simp add: render_string_def Let_def)

text \<open>
  Claim C6, as amended. When the memory at the head address holds \<open>bs\<close>, whose first
  null byte is at offset \<open>k\<close>, and \<open>k\<close> is below the number of bytes read (the
  reported length, at most 1024), the text between the quotes is the first \<open>k\<close> bytes
  decoded, then escaped and cut to 200 characters and an ellipsis: no byte at or beyond
  the null contributes to it.
\<close>

theorem preview_stops_at_null:
  assumes "GetTarget valobj = Inr target" and "GetProcess target = Inr process"
    and "find_member_recursive (recursion_limit rt) valobj (lit ''head_'') = Inr (Some head)"
    and "find_member_recursive (recursion_limit rt) valobj (lit ''tail_'') = Inr (Some tail)"
    and "find_member_recursive (recursion_limit rt) valobj (lit ''max_length_'') = Inr (Some maxl)"
    and "GetValueAsUnsigned head 0 = Inr h" and "GetValueAsUnsigned tail 0 = Inr t"
    and "GetValueAsUnsigned maxl 0 = Inr c"
    and "h \<noteq> 0" and "t \<noteq> 0" and "h \<le> t"
    and "ReadMemory process h (min (spec_length h t c) 1024)
         = Inr (False, PyBytes (take (nat (min (spec_length h t c) 1024)) bs))"
    and "bs = pre @ CHR 0x00 # rest" and "CHR 0x00 \<notin> set pre"
    and "int (length pre) < min (spec_length h t c) 1024"
  shows "static_string_summary rt valobj =
           Inr ([34] @ truncate_display (escape (decode_text rt pre)) @ [34]
                @ lit '' len='' @ str_int (spec_length h t c) @ lit '' cap='' @ str_int c)"
proof -
  let ?n = "nat (min (spec_length h t c) 1024)"
  have "length pre < ?n"
    using assms(15) by linarith
  then have "take ?n bs = pre @ CHR 0x00 # take (?n - length pre - 1) rest"
    using assms(13) by (simp add: take_Cons')
  then have r: "render_string rt (take ?n bs) (spec_length h t c) c =
                  [34] @ truncate_display (escape (decode_text rt pre)) @ [34]
                  @ lit '' len='' @ str_int (spec_length h t c) @ lit '' cap='' @ str_int c"
    using render_string_null [OF assms(14)] by simp
  show ?thesis
    using static_string_body_found [OF assms(1-8)] assms(9-12) r
    by (simp add: static_string_summary_def to_bytes_def)
qed


theorem preview_stops_at_null_witness:
  "static_string_summary ascii_runtime
     (example_string 4096 4106 16 (''hello'' @ CHR 0x00 # ''wxyz''))
   = Inr ([34] @ lit ''hello'' @ [34] @ lit '' len=10 cap=16'')"
proof -
  have L: "spec_length 4096 4106 16 = 10"
    by (simp add: spec_length_def clamp_def)
  have d: "decode_text ascii_runtime ''hello'' = lit ''hello''"
    by (simp add: decode_text_def ascii_runtime_def ascii_decode_def lit_def)
  have s: "str_int 10 = lit ''10''" "str_int 16 = lit ''16''"
    by (simp_all add: str_int_def lit_def)
  have "static_string_summary ascii_runtime
          (example_string 4096 4106 16 (''hello'' @ CHR 0x00 # ''wxyz''))
        = Inr ([34] @ truncate_display (escape (decode_text ascii_runtime ''hello'')) @ [34]
               @ lit '' len='' @ str_int (spec_length 4096 4106 16) @ lit '' cap='' @ str_int 16)"
    by (rule preview_stops_at_null [OF example_string_members(1) target_process
          example_string_members(2,3,4) scalar_value scalar_value scalar_value _ _ _ memory_read])
       (simp_all add: L)
  then show ?thesis
    by (simp add: L d s lit_def truncate_display_def escape_def replace_def)
qed

lemma replace_other: "c \<notin> set s \<Longrightarrow> replace c r s = s"
  by (induction s) (auto simp: replace_def)

lemma escape_plain: "9 \<notin> set s \<Longrightarrow> 10 \<notin> set s \<Longrightarrow> 13 \<notin> set s \<Longrightarrow> 92 \<notin> set s \<Longrightarrow> escape s = s"
  by (simp add: escape_def replace_other)

text \<open>
  Claim C6 says that the preview is exactly the first \<open>k\<close> bytes decoded for every
  \<open>k\<close> below the reported length. With 1025 letters \<open>A\<close> before the null and a
  reported length of 1026, 1024 bytes are read and 200 characters and an ellipsis are
  shown, not the 1025 characters the first \<open>k\<close> bytes decode to.
\<close>

theorem preview_cut_counterexample:
  "spec_length 4096 5122 0 = 1026
   \<and> find_byte (CHR 0x00) (replicate 1025 (CHR ''A'') @ [CHR 0x00]) = 1025
   \<and> decode_text ascii_runtime (replicate 1025 (CHR ''A'')) = replicate 1025 65
   \<and> static_string_summary ascii_runtime
       (example_string 4096 5122 0 (replicate 1025 (CHR ''A'') @ [CHR 0x00]))
     = Inr ([34] @ replicate 200 65 @ [8230] @ [34] @ lit '' len=1026 cap=0'')
   \<and> static_string_summary ascii_runtime
       (example_string 4096 5122 0 (replicate 1025 (CHR ''A'') @ [CHR 0x00]))
     \<noteq> Inr ([34] @ replicate 1025 65 @ [34] @ lit '' len=1026 cap=0'')"
proof -
  let ?bs = "replicate 1025 (CHR ''A'') @ [CHR 0x00]"
  have L: "spec_length 4096 5122 0 = 1026"
    by (simp add: spec_length_def clamp_def)
  have f: "find_byte (CHR 0x00) ?bs = 1025"
    using find_byte_first [of "CHR 0x00" "replicate 1025 (CHR ''A'')" "[]"] by simp
  have d: "decode_text ascii_runtime (replicate n (CHR ''A'')) = replicate n 65" for n
    by (simp add: decode_text_def ascii_runtime_def ascii_decode_def)
  have t: "take (nat 1024) ?bs = replicate 1024 (CHR ''A'')"
    by simp
  have r: "render_string ascii_runtime (replicate 1024 (CHR ''A'')) 1026 0
           = [34] @ truncate_display (escape (replicate 1024 65)) @ [34]
             @ lit '' len='' @ str_int 1026 @ lit '' cap='' @ str_int 0"
    by (simp add: render_string_no_null d)
  have e: "truncate_display (escape (replicate 1024 65)) = replicate 200 65 @ [8230]"
    by (simp add: escape_plain truncate_display_def)
  have s: "str_int 1026 = lit ''1026''" "str_int 0 = lit ''0''"
    by (simp_all add: str_int_def lit_def)
  have b: "static_string_body ascii_runtime (example_string 4096 5122 0 ?bs)
           = Inr (render_string ascii_runtime (replicate 1024 (CHR ''A'')) 1026 0)"
    using static_string_body_found [OF example_string_members(1) target_process
          example_string_members(2,3,4) scalar_value scalar_value scalar_value,
          of 4096 5122 0 ?bs]
    by (simp add: L memory_read t to_bytes_def)
  have v: "static_string_summary ascii_runtime (example_string 4096 5122 0 ?bs)
           = Inr ([34] @ replicate 200 65 @ [8230] @ [34] @ lit '' len=1026 cap=0'')"
    by (simp add: static_string_summary_def b r e s lit_def)
  have "length ([34] @ replicate 200 65 @ [8230] @ [34] @ lit '' len=1026 cap=0'')
        \<noteq> length ([34] @ replicate 1025 (65::nat) @ [34] @ lit '' len=1026 cap=0'')"
    by (simp add: lit_def)
  then have n: "[34] @ replicate 200 65 @ [8230] @ [34] @ lit '' len=1026 cap=0''
        \<noteq> [34] @ replicate 1025 (65::nat) @ [34] @ lit '' len=1026 cap=0''"
    by (metis (no_types))
  from L f d [of 1025] v n show ?thesis
    by (simp only: sum.inject) blast
qed

section \<open>Failures and the decoder calls\<close>

lemma try_except_returns: "\<exists>s. try_except body (\<lambda>e. Inr (h e)) = Inr s"
  by (cases body) simp_all

lemma vector_child_shape:
  assumes "vector_compute_layout self = Inr self'"
  shows "vector_get_child_at_index self i = Inr (SBValue_default, self')
         \<or> (\<exists>addr ty v.
               CreateValueFromAddress (vp_valobj self') (index_label i) addr ty = Inr v
               \<and> vector_get_child_at_index self i = Inr (Created v, self'))
         \<or> (\<exists>addr ty x.
               CreateValueFromAddress (vp_valobj self') (index_label i) addr ty = Inl x
               \<and> vector_get_child_at_index self i = Inl x)"
proof -
  from assms obtain sz a where f: "vp_size self' = Some sz" "vp_data_addr self' = Some a"
    using vector_layout_cached by fastforce
  show ?thesis
  proof (cases "vp_elem_type self'")
    case None
    with assms f show ?thesis
      by (simp add: vector_get_child_at_index_def type_truthy_def)
  next
    case (Some ty)
    show ?thesis
    proof (cases "CreateValueFromAddress (vp_valobj self') (index_label i)
                    (a + i * vp_elem_size self') ty")
      case (Inl x)
      then show ?thesis
        unfolding vector_child_eq [OF assms f Some] by auto
    next
      case (Inr v)
      then show ?thesis
        unfolding vector_child_eq [OF assms f Some] by auto
    qed
  qed
qed

lemma adapter_child_shape:
  assumes "adapter_compute_layout rt self = Inr self'"
  shows "adapter_get_child_at_index rt self i = Inr (SBValue_default, self')
         \<or> (\<exists>addr ty v.
               CreateValueFromAddress (ap_valobj self') (index_label i) addr ty = Inr v
               \<and> adapter_get_child_at_index rt self i = Inr (Created v, self'))
         \<or> (\<exists>addr ty x.
               CreateValueFromAddress (ap_valobj self') (index_label i) addr ty = Inl x
               \<and> adapter_get_child_at_index rt self i = Inl x)"
proof -
  from assms obtain sz a where f: "ap_size self' = Some sz" "ap_base_addr self' = Some a"
    using adapter_layout_cached by fastforce
  show ?thesis
  proof (cases "ap_elem_type self'")
    case None
    with assms f show ?thesis
      by (simp add: adapter_get_child_at_index_def type_truthy_def)
  next
    case (Some ty)
    show ?thesis
    proof (cases "CreateValueFromAddress (ap_valobj self') (index_label i)
                    (a + i * ap_elem_size self') ty")
      case (Inl x)
      then show ?thesis
        unfolding adapter_child_eq [OF assms f Some] by auto
    next
      case (Inr v)
      then show ?thesis
        unfolding adapter_child_eq [OF assms f Some] by auto
    qed
  qed
qed

text \<open>
  Claim C1, as amended. Each of the three summaries returns a string for every input:
  an exception raised inside is collapsed to the \<open><...: error ...>\<close> placeholder. The
  synthetic-children operations have no handler of their own. When the layout
  computation completes, \<open>num_children\<close> returns the count and \<open>has_children\<close> the
  flag, and \<open>get_child_at_index\<close> returns the absent child or the child the host
  makes with \<open>CreateValueFromAddress\<close>. An exception raised by a host accessor while
  the layout is computed, or by \<open>CreateValueFromAddress\<close>, propagates to the caller.
\<close>

theorem decoder_failure_policy:
  "(\<exists>s. static_string_summary rt valobj = Inr s)
   \<and> (\<exists>s. StaticVectorSummary valobj = Inr s)
   \<and> (\<exists>s. StaticVectorAdapterSummary rt valobj = Inr s)
   \<and> (vector_compute_layout self = Inr self'
      \<longrightarrow> (\<exists>n. vector_num_children self = Inr (n, self'))
          \<and> (\<exists>b. vector_has_children self = Inr (b, self'))
          \<and> (vector_get_child_at_index self i = Inr (SBValue_default, self')
               \<or> (\<exists>addr ty v.
                     CreateValueFromAddress (vp_valobj self') (index_label i) addr ty = Inr v
                     \<and> vector_get_child_at_index self i = Inr (Created v, self'))
               \<or> (\<exists>addr ty x.
                     CreateValueFromAddress (vp_valobj self') (index_label i) addr ty = Inl x
                     \<and> vector_get_child_at_index self i = Inl x)))
   \<and> (vector_compute_layout self = Inl e
      \<longrightarrow> vector_num_children self = Inl e \<and> vector_has_children self = Inl e
          \<and> vector_get_child_at_index self i = Inl e)
   \<and> (adapter_compute_layout rt aself = Inr aself'
      \<longrightarrow> (\<exists>n. adapter_num_children rt aself = Inr (n, aself'))
          \<and> (\<exists>b. adapter_has_children rt aself = Inr (b, aself'))
          \<and> (adapter_get_child_at_index rt aself j = Inr (SBValue_default, aself')
               \<or> (\<exists>addr ty v.
                     CreateValueFromAddress (ap_valobj aself') (index_label j) addr ty = Inr v
                     \<and> adapter_get_child_at_index rt aself j = Inr (Created v, aself'))
               \<or> (\<exists>addr ty x.
                     CreateValueFromAddress (ap_valobj aself') (index_label j) addr ty = Inl x
                     \<and> adapter_get_child_at_index rt aself j = Inl x)))
   \<and> (adapter_compute_layout rt aself = Inl e'
      \<longrightarrow> adapter_num_children rt aself = Inl e' \<and> adapter_has_children rt aself = Inl e'
          \<and> adapter_get_child_at_index rt aself j = Inl e')"
proof (intro conjI impI)
  show "\<exists>s. static_string_summary rt valobj = Inr s"
    unfolding static_string_summary_def by (rule try_except_returns)
  show "\<exists>s. StaticVectorSummary valobj = Inr s"
    unfolding StaticVectorSummary_def by (rule try_except_returns)
  show "\<exists>s. StaticVectorAdapterSummary rt valobj = Inr s"
    unfolding StaticVectorAdapterSummary_def by (rule try_except_returns)
next
  assume l: "vector_compute_layout self = Inr self'"
  then obtain sz where sz: "vp_size self' = Some sz"
    using vector_layout_cached by fastforce
  show "\<exists>n. vector_num_children self = Inr (n, self')"
    using l sz by (simp add: vector_num_children_def)
  show "\<exists>b. vector_has_children self = Inr (b, self')"
    using l sz by (simp add: vector_has_children_def)
  show "vector_get_child_at_index self i = Inr (SBValue_default, self')
         \<or> (\<exists>addr ty v.
               CreateValueFromAddress (vp_valobj self') (index_label i) addr ty = Inr v
               \<and> vector_get_child_at_index self i = Inr (Created v, self'))
         \<or> (\<exists>addr ty x.
               CreateValueFromAddress (vp_valobj self') (index_label i) addr ty = Inl x
               \<and> vector_get_child_at_index self i = Inl x)"
    using l by (rule vector_child_shape)
next
  assume l: "vector_compute_layout self = Inl e"
  show "vector_num_children self = Inl e"
    using l by (simp add: vector_num_children_def)
  show "vector_has_children self = Inl e"
    using l by (simp add: vector_has_children_def)
  show "vector_get_child_at_index self i = Inl e"
    using l by (simp add: vector_get_child_at_index_def)
next
  assume l: "adapter_compute_layout rt aself = Inr aself'"
  then obtain sz where sz: "ap_size aself' = Some sz"
    using adapter_layout_cached by fastforce
  show "\<exists>n. adapter_num_children rt aself = Inr (n, aself')"
    using l sz by (simp add: adapter_num_children_def)
  show "\<exists>b. adapter_has_children rt aself = Inr (b, aself')"
    using l sz by (simp add: adapter_has_children_def)
  show "adapter_get_child_at_index rt aself j = Inr (SBValue_default, aself')
         \<or> (\<exists>addr ty v.
               CreateValueFromAddress (ap_valobj aself') (index_label j) addr ty = Inr v
               \<and> adapter_get_child_at_index rt aself j = Inr (Created v, aself'))
         \<or> (\<exists>addr ty x.
               CreateValueFromAddress (ap_valobj aself') (index_label j) addr ty = Inl x
               \<and> adapter_get_child_at_index rt aself j = Inl x)"
    using l by (rule adapter_child_shape)
next
  assume l: "adapter_compute_layout rt aself = Inl e'"
  show "adapter_num_children rt aself = Inl e'"
    using l by (simp add: adapter_num_children_def)
  show "adapter_has_children rt aself = Inl e'"
    using l by (simp add: adapter_has_children_def)
  show "adapter_get_child_at_index rt aself j = Inl e'"
    using l by (simp add: adapter_get_child_at_index_def)
qed

lemma raising_vector_count:
  "find_member_direct raising_vector (lit ''elementsCount'') = Inl host_error"
  by (simp add: raising_vector_def raising_member_def host_examples)

lemma raising_vector_layout:
  "vector_compute_layout (fresh_vector_provider raising_vector (plain_type 2) 2) = Inl host_error"
  by (simp add: vector_compute_layout_def fresh_vector_provider_def raising_vector_count)

lemma failing_create_member:
  "find_member_direct (failing_create v) name = find_member_direct v name"
  by (simp add: find_member_direct_def failing_create_def)

lemma failing_create_layout:
  "vector_compute_layout
     (fresh_vector_provider (failing_create (example_vector 3 (plain_type 2) 10)) (plain_type 2) 2)
   = Inr ((fresh_vector_provider (failing_create (example_vector 3 (plain_type 2) 10))
             (plain_type 2) 2)
            \<lparr>vp_size := Some 3, vp_data_addr := Some 4096\<rparr>)"
  by (simp add: vector_compute_layout_def fresh_vector_provider_def failing_create_member
      vector_example_count vector_example_arr scalar_unsigned std_array_first std_array_valid)

text \<open>
  Claim C1 says that no synthetic-children operation propagates an exception. For a
  vector whose count member is truthy while its \<open>IsValid\<close> raises (a call
  \<open>_read_unsigned_value\<close> guards with \<open>try\<close> and \<open>_compute_layout\<close> does not), the
  three operations of \<open>StaticVectorSynthProvider\<close> raise; and where the layout is
  computed but the host cannot make a value at the address, \<open>get_child_at_index\<close>
  raises for an index in range.
\<close>

theorem provider_raises_counterexample:
  "vector_init raising_vector = Inr (fresh_vector_provider raising_vector (plain_type 2) 2)
   \<and> vector_num_children (fresh_vector_provider raising_vector (plain_type 2) 2) = Inl host_error
   \<and> vector_has_children (fresh_vector_provider raising_vector (plain_type 2) 2) = Inl host_error
   \<and> vector_get_child_at_index (fresh_vector_provider raising_vector (plain_type 2) 2) 0
     = Inl host_error
   \<and> vector_get_child_at_index
       (fresh_vector_provider (failing_create (example_vector 3 (plain_type 2) 10))
          (plain_type 2) 2) 1
     = Inl host_error"
proof -
  let ?f = "fresh_vector_provider (failing_create (example_vector 3 (plain_type 2) 10))
              (plain_type 2) 2"
  have "vector_init raising_vector = Inr (fresh_vector_provider raising_vector (plain_type 2) 2)"
    by (simp add: vector_init_def get_template_elem_type_def byte_size_or_0_def
        fresh_vector_provider_def raising_vector_def aggregate_def template_type_def
        plain_type_def)
  moreover have "vector_get_child_at_index ?f 1 = Inl host_error"
  proof -
    have f: "vp_size (?f\<lparr>vp_size := Some 3, vp_data_addr := Some 4096\<rparr>) = Some 3"
      "vp_data_addr (?f\<lparr>vp_size := Some 3, vp_data_addr := Some 4096\<rparr>) = Some 4096"
      "vp_elem_type (?f\<lparr>vp_size := Some 3, vp_data_addr := Some 4096\<rparr>) = Some (plain_type 2)"
      by (simp_all add: fresh_vector_provider_def)
    have t: "type_truth (plain_type 2)"
      by (simp add: plain_type_def)
    have c: "CreateValueFromAddress (failing_create v) label addr ty = Inl host_error"
      for v label addr ty
      by (simp add: failing_create_def)
    have v: "vp_valobj ?f = failing_create (example_vector 3 (plain_type 2) 10)"
      by (simp add: fresh_vector_provider_def)
    show ?thesis
      by (simp add: vector_child_eq [OF failing_create_layout f] t v c)
  qed
  ultimately show ?thesis
    by (simp add: vector_num_children_def vector_has_children_def vector_get_child_at_index_def
        raising_vector_layout)
qed

theorem decoder_failure_policy_witness:
  "StaticVectorSummary raising_vector = Inr (lit ''<static_vector: error host error>'')
   \<and> static_string_summary ascii_runtime raising_vector
     = Inr (lit ''<static_string: error host error>'')
   \<and> vector_compute_layout (fresh_vector_provider raising_vector (plain_type 2) 2)
     = Inl host_error
   \<and> vector_num_children (fresh_vector_provider raising_vector (plain_type 2) 2) = Inl host_error
   \<and> vector_compute_layout
       (fresh_vector_provider (example_vector 3 (plain_type 2) 10) (plain_type 2) 2)
     = Inr ((fresh_vector_provider (example_vector 3 (plain_type 2) 10) (plain_type 2) 2)
              \<lparr>vp_size := Some 3, vp_data_addr := Some 4096\<rparr>)
   \<and> (\<exists>n. vector_num_children
              (fresh_vector_provider (example_vector 3 (plain_type 2) 10) (plain_type 2) 2)
            = Inr (n, (fresh_vector_provider (example_vector 3 (plain_type 2) 10) (plain_type 2) 2)
                        \<lparr>vp_size := Some 3, vp_data_addr := Some 4096\<rparr>))
   \<and> adapter_compute_layout ascii_runtime
       (fresh_adapter_provider (example_adapter 3 8 12288 (plain_type 2)) (plain_type 2) 2)
     = Inr ((fresh_adapter_provider (example_adapter 3 8 12288 (plain_type 2)) (plain_type 2) 2)
              \<lparr>ap_size := Some 3, ap_base_addr := Some 12288\<rparr>)
   \<and> (\<exists>b. adapter_has_children ascii_runtime
              (fresh_adapter_provider (example_adapter 3 8 12288 (plain_type 2)) (plain_type 2) 2)
            = Inr (b, (fresh_adapter_provider (example_adapter 3 8 12288 (plain_type 2))
                         (plain_type 2) 2)
                        \<lparr>ap_size := Some 3, ap_base_addr := Some 12288\<rparr>))"
proof -
  let ?r = "fresh_vector_provider raising_vector (plain_type 2) 2"
  let ?v = "fresh_vector_provider (example_vector 3 (plain_type 2) 10) (plain_type 2) 2"
  let ?v' = "?v\<lparr>vp_size := Some 3, vp_data_addr := Some 4096\<rparr>"
  let ?a = "fresh_adapter_provider (example_adapter 3 8 12288 (plain_type 2)) (plain_type 2) 2"
  let ?a' = "?a\<lparr>ap_size := Some 3, ap_base_addr := Some 12288\<rparr>"
  have 1: "StaticVectorSummary raising_vector = Inr (lit ''<static_vector: error host error>'')"
    by (simp add: StaticVectorSummary_def StaticVectorSummary_body_def raising_vector_count)
       (simp add: host_error_def lit_def)
  have t: "GetTarget raising_vector = Inr (SBTarget (Inr no_memory))"
    by (simp add: raising_vector_def aggregate_def)
  have h: "find_member_recursive (recursion_limit ascii_runtime) raising_vector (lit ''head_'')
           = Inl host_error"
    by (simp add: ascii_runtime_def eval_nat_numeral raising_vector_def raising_member_def
        host_examples)
  have 2: "static_string_summary ascii_runtime raising_vector
           = Inr (lit ''<static_string: error host error>'')"
    by (simp add: static_string_summary_def static_string_body_def t h)
       (simp add: host_error_def lit_def)
  have 3: "vector_compute_layout ?r = Inl host_error"
    by (rule raising_vector_layout)
  have 4: "vector_compute_layout ?v = Inr ?v'"
    by (simp add: vector_example_layout)
  have 5: "adapter_compute_layout ascii_runtime ?a = Inr ?a'"
    by (simp add: adapter_example_layout read_scalar_3)
  from decoder_failure_policy [of ascii_runtime raising_vector ?r _ 0 host_error ?a ?a' 0] 3 5
  have 6: "vector_num_children ?r = Inl host_error"
    and 7: "\<exists>b. adapter_has_children ascii_runtime ?a = Inr (b, ?a')"
    by blast+
  from decoder_failure_policy [of ascii_runtime raising_vector ?v ?v' 0 _ ?a ?a' 0] 4
  have 8: "\<exists>n. vector_num_children ?v = Inr (n, ?v')"
    by blast
  from 1 2 3 4 5 6 7 8 show ?thesis by blast
qed

end
